theory Spec2Isabelle
  imports Main "HOL-Library.Sublist" "HOL-Library.AList"
begin

section \<open>JavaScript values\<close>

text \<open>
  The client is TypeScript. A JavaScript string is modelled as a \<^typ>\<open>string\<close> whose
  characters are UTF-16 code units below 256; \<open>undefined\<close> and \<open>null\<close> are both \<open>None\<close>.
  A value is falsy when it is \<open>undefined\<close>, \<open>null\<close> or the empty string.
\<close>

datatype js_error =
    Error string
  | TypeError string
  | ServiceError string

definition truthy :: "string option \<Rightarrow> bool" where
  "truthy v = (case v of None \<Rightarrow> False | Some s \<Rightarrow> s \<noteq> [])"

text \<open>\<open>Buffer.byteLength(s, 'utf8')\<close>: one byte below U+0080, two bytes up to U+00FF.\<close>

definition byteLength :: "string \<Rightarrow> nat" where
  "byteLength s = sum_list (map (\<lambda>c. if (of_char c :: nat) < 128 then 1 else 2) s)"

text \<open>\<open>s.indexOf(pat)\<close> and \<open>s.lastIndexOf(pat)\<close>: the first and the last position at
  which \<open>pat\<close> occurs in \<open>s\<close>, or \<open>-1\<close>.\<close>

fun indexOf :: "string \<Rightarrow> string \<Rightarrow> int" where
  "indexOf [] pat = (if pat = [] then 0 else - 1)"
| "indexOf (c # cs) pat =
     (if prefix pat (c # cs) then 0
      else (let r = indexOf cs pat in if r < 0 then - 1 else r + 1))"

fun lastIndexOf :: "string \<Rightarrow> string \<Rightarrow> int" where
  "lastIndexOf [] pat = (if pat = [] then 0 else - 1)"
| "lastIndexOf (c # cs) pat =
     (let r = lastIndexOf cs pat
      in if 0 \<le> r then r + 1 else if prefix pat (c # cs) then 0 else - 1)"

text \<open>\<open>s.substring(start, stop)\<close> clamps both indices to the string and swaps them when
  \<open>start > stop\<close>; \<open>s.substring(start)\<close> runs to the end.\<close>

definition substring :: "string \<Rightarrow> int \<Rightarrow> int \<Rightarrow> string" where
  "substring s start stop =
     (let n = int (length s);
          a = max 0 (min start n);
          b = max 0 (min stop n)
      in take (nat (max a b - min a b)) (drop (nat (min a b)) s))"

definition substring_from :: "string \<Rightarrow> int \<Rightarrow> string" where
  "substring_from s start = drop (nat (max 0 (min start (int (length s))))) s"

section \<open>Constants\<close>

definition DEFAULT_MESSAGE_SIZE_THRESHOLD :: int where
  "DEFAULT_MESSAGE_SIZE_THRESHOLD = 262144"

definition S3_MESSAGE_KEY_MARKER :: string where
  "S3_MESSAGE_KEY_MARKER = ''-..s3Key..-''"

definition S3_BUCKET_NAME_MARKER :: string where
  "S3_BUCKET_NAME_MARKER = ''-..s3BucketName..-''"

definition S3_MESSAGE_BODY_KEY :: string where
  "S3_MESSAGE_BODY_KEY = ''S3MessageBodyKey''"

definition RESERVED_ATTRIBUTE_NAME :: string where
  "RESERVED_ATTRIBUTE_NAME = S3_MESSAGE_BODY_KEY"

section \<open>Messages\<close>

text \<open>An attribute map is a JavaScript object: an association list in insertion order, with
  distinct keys. \<open>BinaryValue\<close> is a byte array.\<close>

record MessageAttributeValue =
  DataType :: "string option"
  StringValue :: "string option"
  BinaryValue :: "string option"

type_synonym attributes = "(string \<times> MessageAttributeValue) list"

record SendMessageRequest =
  QueueUrl :: string
  MessageBody :: "string option"
  MessageAttributes :: "attributes option"

record Message =
  Body :: "string option"
  msg_ReceiptHandle :: "string option"
  msg_MessageAttributes :: "attributes option"

record ReceiveMessageRequest =
  rm_QueueUrl :: string
  MessageAttributeNames :: "string list option"

record ReceiveMessageResult =
  Messages :: "Message list option"

record DeleteMessageRequest =
  dm_QueueUrl :: string
  ReceiptHandle :: string

text \<open>A record of a Lambda \<open>SQSEvent\<close>.\<close>

record SQSMessageAttribute =
  ev_stringValue :: "string option"

record SQSRecord =
  ev_body :: "string option"
  ev_messageAttributes :: "(string \<times> SQSMessageAttribute) list option"

section \<open>Size estimate\<close>

definition attributeSize :: "string \<times> MessageAttributeValue \<Rightarrow> nat" where
  "attributeSize kv =
     (case kv of (attrKey, attr) \<Rightarrow>
        byteLength attrKey
        + (if truthy (DataType attr) then (case DataType attr of Some d \<Rightarrow> byteLength d | None \<Rightarrow> 0) else 0)
        + (case StringValue attr of Some v \<Rightarrow> byteLength v | None \<Rightarrow> 0)
        + (case BinaryValue attr of Some v \<Rightarrow> length v | None \<Rightarrow> 0))"

definition getMessageAttributesSize :: "attributes option \<Rightarrow> nat" where
  "getMessageAttributesSize messageAttributes =
     (case messageAttributes of
        None \<Rightarrow> 0
      | Some attrs \<Rightarrow> sum_list (map attributeSize attrs))"

definition isLarge :: "SendMessageRequest \<Rightarrow> int option \<Rightarrow> bool" where
  "isLarge message messageSizeThreshold =
     (let threshold = (case messageSizeThreshold of None \<Rightarrow> DEFAULT_MESSAGE_SIZE_THRESHOLD | Some t \<Rightarrow> t);
          messageAttributeSize =
            (case MessageAttributes message of
               Some attrs \<Rightarrow> getMessageAttributesSize (Some attrs)
             | None \<Rightarrow> 0);
          bodySize =
            (case MessageBody message of
               Some b \<Rightarrow> if b \<noteq> [] then byteLength b else 0
             | None \<Rightarrow> 0)
      in int (messageAttributeSize + bodySize) > threshold)"

section \<open>Transforms\<close>

record send_obj =
  so_s3Content :: "string option"
  so_messageBody :: "string option"

definition defaultSendTransform ::
  "bool option \<Rightarrow> int option \<Rightarrow> SendMessageRequest \<Rightarrow> send_obj" where
  "defaultSendTransform alwaysUseS3 messageSizeThreshold message =
     (let useS3 = (alwaysUseS3 = Some True \<or> isLarge message messageSizeThreshold)
      in \<lparr> so_s3Content = (if useS3 then MessageBody message else None),
           so_messageBody = (if useS3 then None else MessageBody message) \<rparr>)"

definition defaultReceiveTransform :: "Message \<Rightarrow> string option \<Rightarrow> string option" where
  "defaultReceiveTransform message content = (if truthy content then content else Body message)"

section \<open>Key codec\<close>

text \<open>The regular expression \<open>/^\((.*)\)(.*)?/\<close>: an opening parenthesis first; the first group
  is greedy, so it ends at the last closing parenthesis of the first line (the dot matches no
  line terminator; among the code units below 256 these are line feed and carriage return);
  the second group is the rest of that line, and is \<open>undefined\<close> when nothing is left.\<close>

definition isLineTerminator :: "char \<Rightarrow> bool" where
  "isLineTerminator c = (c = CHR 0x0A \<or> c = CHR 0x0D)"

definition s3MessageKeyRegexMatch :: "string \<Rightarrow> (string \<times> string option) option" where
  "s3MessageKeyRegexMatch s =
     (case s of
        [] \<Rightarrow> None
      | c # rest \<Rightarrow>
          if c \<noteq> CHR ''('' then None
          else
            (let line = takeWhile (\<lambda>x. \<not> isLineTerminator x) rest;
                 j = lastIndexOf line '')''
             in if j < 0 then None
                else Some (take (nat j) line,
                           (let g = drop (nat j + 1) line in if g = [] then None else Some g))))"

text \<open>The result is the pair \<open>(bucketName, s3MessageKey)\<close>; \<open>Inl\<close> is the thrown error.\<close>

definition getS3MessageKeyAndBucket ::
  "string option \<Rightarrow> js_error + (string option \<times> string option)" where
  "getS3MessageKeyAndBucket s3MessageKey =
     (case s3MessageKey of
        None \<Rightarrow> Inr (None, None)
      | Some s \<Rightarrow>
          if s = [] then Inr (None, None)
          else (case s3MessageKeyRegexMatch s of
                  Some (g1, g2) \<Rightarrow> Inr (Some g1, g2)
                | None \<Rightarrow> Inl (Error ''Can not found match s3MessageKeyRegexMatch'')))"

text \<open>A template literal prints an \<open>undefined\<close> receipt handle as the word \<open>undefined\<close>.\<close>

definition embedS3MarkersInReceiptHandle :: "string \<Rightarrow> string \<Rightarrow> string option \<Rightarrow> string" where
  "embedS3MarkersInReceiptHandle bucketName s3MessageKey receiptHandle =
     S3_BUCKET_NAME_MARKER @ bucketName @ S3_BUCKET_NAME_MARKER @
     S3_MESSAGE_KEY_MARKER @ s3MessageKey @ S3_MESSAGE_KEY_MARKER @
     (case receiptHandle of None \<Rightarrow> ''undefined'' | Some h \<Rightarrow> h)"

definition addS3MessageKeyAttribute :: "string \<Rightarrow> attributes option \<Rightarrow> attributes" where
  "addS3MessageKeyAttribute s3MessageKey attrs =
     AList.update S3_MESSAGE_BODY_KEY
       \<lparr> DataType = Some ''String'', StringValue = Some s3MessageKey, BinaryValue = None \<rparr>
       (case attrs of None \<Rightarrow> [] | Some a \<Rightarrow> a)"

definition extractBucketNameFromReceiptHandle :: "string \<Rightarrow> string option" where
  "extractBucketNameFromReceiptHandle receiptHandle =
     (if 0 \<le> indexOf receiptHandle S3_BUCKET_NAME_MARKER then
        Some (substring receiptHandle
               (indexOf receiptHandle S3_BUCKET_NAME_MARKER + int (length S3_BUCKET_NAME_MARKER))
               (lastIndexOf receiptHandle S3_BUCKET_NAME_MARKER))
      else None)"

definition extractS3MessageKeyFromReceiptHandle :: "string \<Rightarrow> string option" where
  "extractS3MessageKeyFromReceiptHandle receiptHandle =
     (if 0 \<le> indexOf receiptHandle S3_MESSAGE_KEY_MARKER then
        Some (substring receiptHandle
               (indexOf receiptHandle S3_MESSAGE_KEY_MARKER + int (length S3_MESSAGE_KEY_MARKER))
               (lastIndexOf receiptHandle S3_MESSAGE_KEY_MARKER))
      else None)"

definition getOriginReceiptHandle :: "string \<Rightarrow> string" where
  "getOriginReceiptHandle receiptHandle =
     (if 0 \<le> indexOf receiptHandle S3_MESSAGE_KEY_MARKER then
        substring_from receiptHandle
          (lastIndexOf receiptHandle S3_MESSAGE_KEY_MARKER + int (length S3_MESSAGE_KEY_MARKER))
      else receiptHandle)"

section \<open>Collaborators and the world\<close>

text \<open>
  The queue client, the object store client and the key generator are external. Calling a
  method of a client starts the request at once and returns a promise (the code calls
  \<open>then\<close> on what the client returns); the promise's outcome is given by the environment,
  \<open>Inl\<close> for a rejection. A fetch from the object store also carries the logical time it
  takes, which decides a race between promises. The world records the requests in the
  order in which they were started, the invocations of the caller's callback (the error
  argument only), and how many keys have been minted.
\<close>

record env =
  uuid :: "nat \<Rightarrow> string"
  sqs_sendMessage :: "SendMessageRequest \<Rightarrow> js_error + string"
  sqs_receiveMessage :: "ReceiveMessageRequest \<Rightarrow> js_error + ReceiveMessageResult"
  sqs_deleteMessage :: "DeleteMessageRequest \<Rightarrow> js_error + unit"
  s3_putObject :: "string option \<Rightarrow> string \<Rightarrow> string option \<Rightarrow> js_error + unit"
  s3_getObject :: "string option \<Rightarrow> string \<Rightarrow> nat \<times> (js_error + string)"
  s3_deleteObject :: "string option \<Rightarrow> string \<Rightarrow> js_error + unit"

datatype event =
    SqsSendMessage SendMessageRequest
  | SqsReceiveMessage ReceiveMessageRequest
  | SqsDeleteMessage DeleteMessageRequest
  | S3PutObject "string option" string "string option"
  | S3GetObject "string option" string
  | S3DeleteObject "string option" string

record world =
  calls :: "event list"
  callbacks :: "js_error option list"
  minted :: nat

definition started :: "event \<Rightarrow> world \<Rightarrow> world" where
  "started e w = w\<lparr>calls := calls w @ [e]\<rparr>"

definition called_back :: "js_error option \<Rightarrow> world \<Rightarrow> world" where
  "called_back err w = w\<lparr>callbacks := callbacks w @ [err]\<rparr>"

definition v4 :: "env \<Rightarrow> world \<Rightarrow> string \<times> world" where
  "v4 e w = (uuid e (minted w), w\<lparr>minted := Suc (minted w)\<rparr>)"

section \<open>The client\<close>

record SQSExtended =
  bucketName :: "string option"
  sendTransform :: "SendMessageRequest \<Rightarrow> send_obj"
  receiveTransform :: "Message \<Rightarrow> string option \<Rightarrow> string option"

record options =
  opt_bucketName :: "string option"
  opt_alwaysUseS3 :: "bool option"
  opt_messageSizeThreshold :: "int option"
  opt_sendTransform :: "(SendMessageRequest \<Rightarrow> send_obj) option"
  opt_receiveTransform :: "(Message \<Rightarrow> string option \<Rightarrow> string option) option"

definition new_SQSExtended :: "options \<Rightarrow> SQSExtended" where
  "new_SQSExtended opts =
     \<lparr> bucketName = opt_bucketName opts,
       sendTransform =
         (case opt_sendTransform opts of
            Some f \<Rightarrow> f
          | None \<Rightarrow> defaultSendTransform (opt_alwaysUseS3 opts) (opt_messageSizeThreshold opts)),
       receiveTransform =
         (case opt_receiveTransform opts of
            Some f \<Rightarrow> f
          | None \<Rightarrow> defaultReceiveTransform) \<rparr>"

subsection \<open>Object store helpers\<close>

text \<open>What a pre-request function returns: a promise with its outcome, or \<open>null\<close>.\<close>

datatype fn_result = IsNull | IsPromise "js_error + unit"

definition storeS3Content ::
  "env \<Rightarrow> SQSExtended \<Rightarrow> string \<Rightarrow> string option \<Rightarrow> world \<Rightarrow> fn_result \<times> world" where
  "storeS3Content e this key content w =
     (IsPromise (s3_putObject e (bucketName this) key content),
      started (S3PutObject (bucketName this) key content) w)"

text \<open>The promise of \<open>_getS3Content\<close> settles when the object has been fetched and its stream
  read, which takes the time the environment gives and is never the time of the call.\<close>

definition getS3Content ::
  "env \<Rightarrow> string option \<Rightarrow> string \<Rightarrow> world \<Rightarrow> (nat \<times> (js_error + string)) \<times> world" where
  "getS3Content e bucket key w =
     (case s3_getObject e bucket key of
        (duration, r) \<Rightarrow> ((Suc duration, r), started (S3GetObject bucket key) w))"

definition deleteS3Content ::
  "env \<Rightarrow> string option \<Rightarrow> string \<Rightarrow> world \<Rightarrow> fn_result \<times> world" where
  "deleteS3Content e bucket key w =
     (if \<not> truthy bucket then (IsNull, w)
      else (IsPromise (s3_deleteObject e bucket key), started (S3DeleteObject bucket key) w))"

subsection \<open>Request wrappers\<close>

text \<open>
  \<open>invokeFnBeforeRequest(request, fn)\<close> and \<open>invokeFnAfterRequest(request, fn)\<close> return a
  function of an optional callback (here: whether one is given) that builds a new promise;
  the model returns how that promise settles, \<open>Inr None\<close> for \<open>resolve()\<close> without a value.
  The request is a promise already started by the caller, so only its outcome is passed.
  Calling \<open>then\<close> on \<open>null\<close> throws inside the promise executor, which rejects the promise.
\<close>

type_synonym 'r send_fn = "bool \<Rightarrow> world \<Rightarrow> (js_error + 'r option) \<times> world"

definition invokeFnBeforeRequest ::
  "(js_error + 'r) \<Rightarrow> (world \<Rightarrow> fn_result \<times> world) \<Rightarrow> 'r send_fn" where
  "invokeFnBeforeRequest request fn callback w =
     (case fn w of
        (IsNull, w1) \<Rightarrow> (Inl (TypeError ''Cannot read properties of null (reading then)''), w1)
      | (IsPromise (Inl fnErr), w1) \<Rightarrow>
          if callback then (Inr None, called_back (Some fnErr) w1) else (Inl fnErr, w1)
      | (IsPromise (Inr u), w1) \<Rightarrow>
          (case request of
             Inr response \<Rightarrow>
               (Inr (Some response), if callback then called_back None w1 else w1)
           | Inl err \<Rightarrow>
               if callback then (Inr None, called_back (Some err) w1) else (Inl err, w1)))"

definition invokeFnAfterRequest ::
  "(js_error + 'r) \<Rightarrow> ('r \<Rightarrow> world \<Rightarrow> (js_error + 'r) \<times> world) \<Rightarrow> 'r send_fn" where
  "invokeFnAfterRequest request fn callback w =
     (case request of
        Inl err \<Rightarrow> if callback then (Inr None, called_back (Some err) w) else (Inl err, w)
      | Inr response \<Rightarrow>
          (case fn response w of
             (Inl s3Err, w1) \<Rightarrow>
               if callback then (Inr None, called_back (Some s3Err) w1) else (Inl s3Err, w1)
           | (Inr response', w1) \<Rightarrow>
               (Inr (Some response'), if callback then called_back None w1 else w1)))"

text \<open>The object \<open>wrapRequest\<close> returns: a spread promise has no properties of its own, so
  the object has the two fields \<open>send\<close> and \<open>promise\<close> only, and no \<open>then\<close>.\<close>

record 'r wrapped_request =
  send :: "'r send_fn"
  promise :: "'r send_fn"

definition wrapRequest ::
  "(js_error + 'r) \<Rightarrow> bool \<Rightarrow> 'r send_fn \<Rightarrow> world \<Rightarrow> 'r wrapped_request \<times> world" where
  "wrapRequest request callback sendFn w =
     (\<lparr> send = sendFn, promise = sendFn \<rparr>,
      if callback then snd (sendFn callback w) else w)"

subsection \<open>Send\<close>

record prepared_send =
  ps_s3MessageKey :: "string option"
  ps_sendParams :: SendMessageRequest
  ps_s3Content :: "string option"

text \<open>The expression
  \<open>params.MessageAttributes && params.MessageAttributes[SQSExtended.RESERVED_ATTRIBUTE_NAME]\<close>.\<close>

definition existingS3MessageKey :: "SendMessageRequest \<Rightarrow> MessageAttributeValue option" where
  "existingS3MessageKey params =
     (case MessageAttributes params of
        None \<Rightarrow> None
      | Some attrs \<Rightarrow> map_of attrs RESERVED_ATTRIBUTE_NAME)"

text \<open>Reading \<open>StringValue\<close> of an \<open>undefined\<close> attribute throws a \<open>TypeError\<close>.\<close>

definition prepareSend ::
  "env \<Rightarrow> SQSExtended \<Rightarrow> SendMessageRequest \<Rightarrow> world \<Rightarrow> (js_error + prepared_send) \<times> world" where
  "prepareSend e this params w =
     (let sendObj = sendTransform this params;
          existing = existingS3MessageKey params
      in if \<not> truthy (so_s3Content sendObj) \<or> existing \<noteq> None then
           (if truthy (so_messageBody sendObj) then
              (Inr \<lparr> ps_s3MessageKey = None,
                     ps_sendParams = params\<lparr>MessageBody := so_messageBody sendObj\<rparr>,
                     ps_s3Content = so_s3Content sendObj \<rparr>, w)
            else
              (case existing of
                 None \<Rightarrow>
                   (Inl (TypeError ''Cannot read properties of undefined (reading StringValue)''), w)
               | Some attr \<Rightarrow>
                   (Inr \<lparr> ps_s3MessageKey = None,
                          ps_sendParams = params\<lparr>MessageBody := StringValue attr\<rparr>,
                          ps_s3Content = so_s3Content sendObj \<rparr>, w)))
         else
           (let (s3MessageKey, w1) = v4 e w;
                token = ''('' @ (case bucketName this of None \<Rightarrow> ''undefined'' | Some b \<Rightarrow> b)
                        @ '')'' @ s3MessageKey
            in (Inr \<lparr> ps_s3MessageKey = Some s3MessageKey,
                      ps_sendParams = params
                        \<lparr>MessageAttributes := Some (addS3MessageKeyAttribute token (MessageAttributes params)),
                         MessageBody := (if truthy (so_messageBody sendObj) then so_messageBody sendObj
                                         else Some s3MessageKey)\<rparr>,
                      ps_s3Content = so_s3Content sendObj \<rparr>, w1)))"

text \<open>What a method of the client gives back to its caller: an exception thrown before any
  promise exists, or a promise with its outcome.\<close>

datatype 'a completion = Thrown js_error | Promise "js_error + 'a"

definition sendMessage ::
  "env \<Rightarrow> SQSExtended \<Rightarrow> SendMessageRequest \<Rightarrow> bool \<Rightarrow> world \<Rightarrow> string option completion \<times> world" where
  "sendMessage e this params callback w =
     (if \<not> truthy (bucketName this) then
        (Thrown (Error ''bucketName option is required for sending messages''), w)
      else
        (case prepareSend e this params w of
           (Inl err, w1) \<Rightarrow> (Thrown err, w1)
         | (Inr p, w1) \<Rightarrow>
             (case (if truthy (ps_s3MessageKey p) then ps_s3MessageKey p else None) of
                None \<Rightarrow>
                  (Promise (map_sum id Some (sqs_sendMessage e (ps_sendParams p))),
                   started (SqsSendMessage (ps_sendParams p)) w1)
              | Some s3MessageKey \<Rightarrow>
                  (let w2 = started (SqsSendMessage (ps_sendParams p)) w1;
                       request = sqs_sendMessage e (ps_sendParams p);
                       (wrapper, w3) =
                         wrapRequest request callback
                           (invokeFnBeforeRequest request
                              (storeS3Content e this s3MessageKey (ps_s3Content p))) w2;
                       (settled, w4) = promise wrapper False w3
                   in (Promise settled, w4)))))"

subsection \<open>Delete\<close>

definition prepareDelete ::
  "DeleteMessageRequest \<Rightarrow> string option \<times> string option \<times> DeleteMessageRequest" where
  "prepareDelete params =
     (extractBucketNameFromReceiptHandle (ReceiptHandle params),
      extractS3MessageKeyFromReceiptHandle (ReceiptHandle params),
      params\<lparr>ReceiptHandle := getOriginReceiptHandle (ReceiptHandle params)\<rparr>)"

text \<open>\<open>deleteMessage\<close> returns the queue's promise, or the object built by \<open>wrapRequest\<close>.\<close>

datatype delete_return =
    Request "js_error + unit"
  | Wrapped "unit wrapped_request"

definition deleteMessage ::
  "env \<Rightarrow> SQSExtended \<Rightarrow> DeleteMessageRequest \<Rightarrow> bool \<Rightarrow> world \<Rightarrow> delete_return \<times> world" where
  "deleteMessage e this params callback w =
     (case prepareDelete params of
        (bucket, key, deleteParams) \<Rightarrow>
          (case (if truthy key then key else None) of
             None \<Rightarrow>
               (Request (sqs_deleteMessage e deleteParams),
                started (SqsDeleteMessage deleteParams) w)
           | Some s3MessageKey \<Rightarrow>
               (let w1 = started (SqsDeleteMessage deleteParams) w;
                    request = sqs_deleteMessage e deleteParams;
                    (wrapper, w2) =
                      wrapRequest request callback
                        (invokeFnBeforeRequest request (deleteS3Content e bucket s3MessageKey)) w1
                in (Wrapped wrapper, w2))))"

subsection \<open>Receive\<close>

text \<open>
  Each object of a batch (a received message, a record of an event) is handled by an
  asynchronous function, all of them started in order. Such a function returns nothing: it
  rewrites its object in place, and only when its fetch has succeeded, or at once when there
  is nothing to fetch. The model of one function gives the promise of the function, with the
  time at which it settles, together with the object as the function leaves it, which is the
  unchanged object when the function throws. The promise settles at once (time 0) when
  nothing is fetched or the decoding throws, and when its fetch settles otherwise, which is
  always later.
\<close>

type_synonym 'a in_place = "(nat \<times> (js_error + unit)) \<times> 'a"

fun for_each :: "('a \<Rightarrow> world \<Rightarrow> 'b \<times> world) \<Rightarrow> 'a list \<Rightarrow> world \<Rightarrow> 'b list \<times> world" where
  "for_each f [] w = ([], w)"
| "for_each f (x # xs) w =
     (let (y, w1) = f x w;
          (ys, w2) = for_each f xs w1
      in (y # ys, w2))"

text \<open>\<open>Promise.all\<close> rejects as soon as the first of its promises rejects, with that error,
  and otherwise resolves when the last one has resolved, to the list of their values. A
  function that throws while decoding rejects its promise at time 0, before any fetch
  settles; rejections at the same time are taken in the order of the batch, the order in
  which the functions were started.\<close>

definition rejections :: "(nat \<times> (js_error + 'a)) list \<Rightarrow> (nat \<times> js_error) list" where
  "rejections ps = concat (map (\<lambda>(t, r). case r of Inl err \<Rightarrow> [(t, err)] | Inr v \<Rightarrow> []) ps)"

definition fulfilments :: "(nat \<times> (js_error + 'a)) list \<Rightarrow> 'a list" where
  "fulfilments ps = concat (map (\<lambda>(t, r). case r of Inl err \<Rightarrow> [] | Inr v \<Rightarrow> [v]) ps)"

fun earliest :: "nat \<times> js_error \<Rightarrow> (nat \<times> js_error) list \<Rightarrow> nat \<times> js_error" where
  "earliest p [] = p"
| "earliest p (q # qs) = earliest (if fst q < fst p then q else p) qs"

definition promise_all :: "(nat \<times> (js_error + 'a)) list \<Rightarrow> nat \<times> (js_error + 'a list)" where
  "promise_all ps =
     (case rejections ps of
        [] \<Rightarrow> (fold max (map fst ps) 0, Inr (fulfilments ps))
      | q # qs \<Rightarrow> (case earliest q qs of (t, err) \<Rightarrow> (t, Inl err)))"

text \<open>The objects of a batch as the caller finds them once every function that settles up to
  time \<open>t\<close> has run: the others have not touched their objects yet.\<close>

definition objects_at :: "nat \<Rightarrow> 'a in_place list \<Rightarrow> 'a list \<Rightarrow> 'a list" where
  "objects_at t rs xs =
     map (\<lambda>(r, x). if fst (fst r) \<le> t then snd r else x) (zip rs xs)"

text \<open>The expression \<open>message.MessageAttributes?.[S3_MESSAGE_BODY_KEY]?.StringValue\<close>.\<close>

definition reservedStringValue :: "Message \<Rightarrow> string option" where
  "reservedStringValue message =
     (case msg_MessageAttributes message of
        None \<Rightarrow> None
      | Some attrs \<Rightarrow>
          (case map_of attrs S3_MESSAGE_BODY_KEY of
             None \<Rightarrow> None
           | Some attr \<Rightarrow> StringValue attr))"

definition processReceive_message ::
  "env \<Rightarrow> SQSExtended \<Rightarrow> Message \<Rightarrow> world \<Rightarrow> Message in_place \<times> world" where
  "processReceive_message e this message w =
     (case getS3MessageKeyAndBucket (reservedStringValue message) of
        Inl err \<Rightarrow> (((0, Inl err), message), w)
      | Inr (bucket, key) \<Rightarrow>
          (case (if truthy key then key else None) of
             Some s3MessageKey \<Rightarrow>
               (case getS3Content e bucket s3MessageKey w of
                  ((t, Inl err), w1) \<Rightarrow> (((t, Inl err), message), w1)
                | ((t, Inr content), w1) \<Rightarrow>
                    (((t, Inr ()),
                      message
                        \<lparr>Body := receiveTransform this message (Some content),
                         msg_ReceiptHandle :=
                           Some (embedS3MarkersInReceiptHandle
                                   (case bucket of None \<Rightarrow> ''null'' | Some b \<Rightarrow> b)
                                   s3MessageKey (msg_ReceiptHandle message))\<rparr>), w1))
           | None \<Rightarrow>
               (((0, Inr ()), message\<lparr>Body := receiveTransform this message None\<rparr>), w)))"

text \<open>\<open>_processReceive()\<close> applied to a response: the promise built by \<open>Promise.all\<close>, which
  resolves to a list of \<open>undefined\<close>, and what happens in place to the messages of the
  response.\<close>

definition processReceive ::
  "env \<Rightarrow> SQSExtended \<Rightarrow> ReceiveMessageResult \<Rightarrow> world
     \<Rightarrow> ((nat \<times> (js_error + unit list)) \<times> Message in_place list) \<times> world" where
  "processReceive e this response w =
     (case for_each (processReceive_message e this)
             (case Messages response of None \<Rightarrow> [] | Some ms \<Rightarrow> ms) w of
        (rs, w1) \<Rightarrow> ((promise_all (map fst rs), rs), w1))"

text \<open>The response object at a time, its messages rewritten in place so far.\<close>

definition response_at ::
  "nat \<Rightarrow> Message in_place list \<Rightarrow> ReceiveMessageResult \<Rightarrow> ReceiveMessageResult" where
  "response_at t rs response =
     (case Messages response of
        None \<Rightarrow> response
      | Some ms \<Rightarrow> response\<lparr>Messages := Some (objects_at t rs ms)\<rparr>)"

text \<open>The request \<open>receiveMessage\<close> sends to the queue: the caller's, asking for the reserved
  attribute as well.\<close>

definition modifiedParams :: "ReceiveMessageRequest \<Rightarrow> ReceiveMessageRequest" where
  "modifiedParams params =
     params\<lparr>MessageAttributeNames :=
       Some ((case MessageAttributeNames params of None \<Rightarrow> [] | Some ns \<Rightarrow> ns)
             @ [RESERVED_ATTRIBUTE_NAME])\<rparr>"

text \<open>\<open>receiveMessage(params)\<close>, called without a callback. The response object comes from the
  queue client and reaches the caller only through \<open>resolve(response)\<close>, as it is when the
  promise of \<open>_processReceive\<close> has resolved.\<close>

definition receiveMessage ::
  "env \<Rightarrow> SQSExtended \<Rightarrow> ReceiveMessageRequest \<Rightarrow> world
     \<Rightarrow> (js_error + ReceiveMessageResult option) \<times> world" where
  "receiveMessage e this params w =
     (let w1 = started (SqsReceiveMessage (modifiedParams params)) w;
          request = sqs_receiveMessage e (modifiedParams params);
          (wrapper, w2) =
            wrapRequest request False
              (invokeFnAfterRequest request
                 (\<lambda>response v.
                    case processReceive e this response v of
                      (((t, r), rs), v') \<Rightarrow> (map_sum id (\<lambda>u. response_at t rs response) r, v'))) w1
      in promise wrapper False w2)"

subsection \<open>Event hook\<close>

text \<open>The expression \<open>record.messageAttributes?.[S3_MESSAGE_BODY_KEY]?.stringValue\<close>.\<close>

definition reservedStringValue_record :: "SQSRecord \<Rightarrow> string option" where
  "reservedStringValue_record record =
     (case ev_messageAttributes record of
        None \<Rightarrow> None
      | Some attrs \<Rightarrow>
          (case map_of attrs S3_MESSAGE_BODY_KEY of
             None \<Rightarrow> None
           | Some attr \<Rightarrow> ev_stringValue attr))"

definition checkEvent_record ::
  "env \<Rightarrow> SQSRecord \<Rightarrow> world \<Rightarrow> SQSRecord in_place \<times> world" where
  "checkEvent_record e record w =
     (case getS3MessageKeyAndBucket (reservedStringValue_record record) of
        Inl err \<Rightarrow> (((0, Inl err), record), w)
      | Inr (bucket, key) \<Rightarrow>
          (case (if truthy key then key else None) of
             Some s3MessageKey \<Rightarrow>
               (case getS3Content e bucket s3MessageKey w of
                  ((t, Inl err), w1) \<Rightarrow> (((t, Inl err), record), w1)
                | ((t, Inr content), w1) \<Rightarrow>
                    (((t, Inr ()),
                      record\<lparr>ev_body := (if content \<noteq> [] then Some content else ev_body record)\<rparr>),
                     w1))
           | None \<Rightarrow> (((0, Inr ()), record), w)))"

text \<open>\<open>checkEvent(event)\<close>: the promise built by \<open>Promise.all\<close>, and what happens in place to
  the records of the caller's event, before and after that promise settles.\<close>

definition checkEvent ::
  "env \<Rightarrow> SQSRecord list \<Rightarrow> world
     \<Rightarrow> ((nat \<times> (js_error + unit list)) \<times> SQSRecord in_place list) \<times> world" where
  "checkEvent e records w =
     (case for_each (checkEvent_record e) records w of
        (rs, w1) \<Rightarrow> ((promise_all (map fst rs), rs), w1))"

section \<open>The client written with async functions\<close>

text \<open>
  A second source file of the repository holds the same client written with \<open>async\<close>
  functions and without transforms. Its send path is modelled here under the names
  \<open>prepareSend_async\<close> and \<open>sendMessage_async\<close>.
\<close>

record SQSExtended_async =
  as_bucketName :: "string option"
  as_alwaysUseS3 :: bool
  as_messageSizeThreshold :: int

definition prepareSend_async ::
  "env \<Rightarrow> SQSExtended_async \<Rightarrow> SendMessageRequest \<Rightarrow> world \<Rightarrow> prepared_send \<times> world" where
  "prepareSend_async e this params w =
     (let useS3 = (as_alwaysUseS3 this \<or> isLarge params (Some (as_messageSizeThreshold this)));
          sendObj = \<lparr> so_s3Content = (if useS3 then MessageBody params else None),
                      so_messageBody = (if useS3 then None else MessageBody params) \<rparr>;
          existing = existingS3MessageKey params
      in if \<not> truthy (so_s3Content sendObj) \<or> existing \<noteq> None then
           (\<lparr> ps_s3MessageKey = None,
              ps_sendParams = params
                \<lparr>MessageBody :=
                   (if truthy (so_messageBody sendObj) then so_messageBody sendObj
                    else (case existing of None \<Rightarrow> None | Some attr \<Rightarrow> StringValue attr))\<rparr>,
              ps_s3Content = so_s3Content sendObj \<rparr>, w)
         else
           (let (s3MessageKey, w1) = v4 e w;
                token = ''('' @ (case as_bucketName this of None \<Rightarrow> ''undefined'' | Some b \<Rightarrow> b)
                        @ '')'' @ s3MessageKey
            in (\<lparr> ps_s3MessageKey = Some s3MessageKey,
                  ps_sendParams = params
                    \<lparr>MessageAttributes := Some (addS3MessageKeyAttribute token (MessageAttributes params)),
                     MessageBody := (if truthy (so_messageBody sendObj) then so_messageBody sendObj
                                     else Some s3MessageKey)\<rparr>,
                  ps_s3Content = so_s3Content sendObj \<rparr>, w1)))"

definition sendMessage_async ::
  "env \<Rightarrow> SQSExtended_async \<Rightarrow> SendMessageRequest \<Rightarrow> world \<Rightarrow> (js_error + string) \<times> world" where
  "sendMessage_async e this params w =
     (if \<not> truthy (as_bucketName this) then
        (Inl (Error ''bucketName option is required for sending messages''), w)
      else
        (case prepareSend_async e this params w of
           (p, w1) \<Rightarrow>
             (case (if truthy (ps_s3MessageKey p) \<and> truthy (ps_s3Content p)
                    then ps_s3MessageKey p else None) of
                Some s3MessageKey \<Rightarrow>
                  (case s3_putObject e (as_bucketName this) s3MessageKey (ps_s3Content p) of
                     Inl err \<Rightarrow>
                       (Inl err,
                        started (S3PutObject (as_bucketName this) s3MessageKey (ps_s3Content p)) w1)
                   | Inr u \<Rightarrow>
                       (sqs_sendMessage e (ps_sendParams p),
                        started (SqsSendMessage (ps_sendParams p))
                          (started (S3PutObject (as_bucketName this) s3MessageKey (ps_s3Content p)) w1)))
              | None \<Rightarrow>
                  (sqs_sendMessage e (ps_sendParams p),
                   started (SqsSendMessage (ps_sendParams p)) w1))))"

section \<open>Fixtures\<close>

text \<open>The collaborators of the repository's tests: every request succeeds, the key generator
  is mocked to return \<open>1234-5678\<close>, and the bucket is \<open>test-bucket\<close>.\<close>

definition test_env :: env where
  "test_env =
     \<lparr> uuid = (\<lambda>n. ''1234-5678''),
       sqs_sendMessage = (\<lambda>p. Inr ''test message id''),
       sqs_receiveMessage = (\<lambda>p. Inr \<lparr> Messages = Some [] \<rparr>),
       sqs_deleteMessage = (\<lambda>p. Inr ()),
       s3_putObject = (\<lambda>b k c. Inr ()),
       s3_getObject = (\<lambda>b k. (1, Inr ''message body'')),
       s3_deleteObject = (\<lambda>b k. Inr ()) \<rparr>"

definition test_world :: world where
  "test_world = \<lparr> calls = [], callbacks = [], minted = 0 \<rparr>"

definition test_client :: SQSExtended where
  "test_client =
     new_SQSExtended
       \<lparr> opt_bucketName = Some ''test-bucket'', opt_alwaysUseS3 = None,
         opt_messageSizeThreshold = None, opt_sendTransform = None,
         opt_receiveTransform = None \<rparr>"

text \<open>The small message of the tests (18 bytes of body and 32 bytes of attribute), a client
  with a given size threshold, and collaborators whose object store refuses uploads.\<close>

definition small_message :: SendMessageRequest where
  "small_message =
     \<lparr> QueueUrl = ''test-queue'', MessageBody = Some ''small message body'',
       MessageAttributes =
         Some [(''MessageAttribute'',
                \<lparr> DataType = Some ''String'', StringValue = Some ''attr value'',
                  BinaryValue = None \<rparr>)] \<rparr>"

definition client_with_threshold :: "int \<Rightarrow> SQSExtended" where
  "client_with_threshold t =
     new_SQSExtended
       \<lparr> opt_bucketName = Some ''test-bucket'', opt_alwaysUseS3 = None,
         opt_messageSizeThreshold = Some t, opt_sendTransform = None,
         opt_receiveTransform = None \<rparr>"

definition upload_refused_env :: env where
  "upload_refused_env =
     test_env\<lparr> s3_putObject := (\<lambda>b k c. Inl (ServiceError ''AccessDenied'')) \<rparr>"

text \<open>A batch of two offloaded messages, the same batch as the records of an event, and
  collaborators for which the object of the first is missing (its fetch fails after 1 unit of
  time, at time 2) while the object of the second takes 5 units (it arrives at time 6).\<close>

definition lost_message :: Message where
  "lost_message =
     \<lparr> Body = Some ''8765-4321'', msg_ReceiptHandle = Some ''handle-1'',
       msg_MessageAttributes =
         Some [(''S3MessageBodyKey'',
                \<lparr> DataType = Some ''String'', StringValue = Some ''(test-bucket)8765-4321'',
                  BinaryValue = None \<rparr>)] \<rparr>"

definition stored_message :: Message where
  "stored_message =
     \<lparr> Body = Some ''1234-5678'', msg_ReceiptHandle = Some ''handle-2'',
       msg_MessageAttributes =
         Some [(''S3MessageBodyKey'',
                \<lparr> DataType = Some ''String'', StringValue = Some ''(test-bucket)1234-5678'',
                  BinaryValue = None \<rparr>)] \<rparr>"

definition missing_object_env :: env where
  "missing_object_env =
     test_env
       \<lparr> sqs_receiveMessage := (\<lambda>p. Inr \<lparr> Messages = Some [lost_message, stored_message] \<rparr>),
         s3_getObject := (\<lambda>b k. if k = ''8765-4321'' then (1, Inl (ServiceError ''NoSuchKey''))
                                 else (5, Inr ''message body'')) \<rparr>"

definition test_records :: "SQSRecord list" where
  "test_records =
     [\<lparr> ev_body = Some ''8765-4321'',
        ev_messageAttributes =
          Some [(''S3MessageBodyKey'', \<lparr> ev_stringValue = Some ''(test-bucket)8765-4321'' \<rparr>)] \<rparr>,
      \<lparr> ev_body = Some ''1234-5678'',
        ev_messageAttributes =
          Some [(''S3MessageBodyKey'', \<lparr> ev_stringValue = Some ''(test-bucket)1234-5678'' \<rparr>)] \<rparr>]"

section \<open>Searching in strings\<close>

lemma lastIndexOf_nonneg_iff: "0 \<le> lastIndexOf s pat \<longleftrightarrow> sublist pat s"
  by (induction s) (auto simp: Let_def sublist_Cons_right)

lemma indexOf_nonneg_iff: "0 \<le> indexOf s pat \<longleftrightarrow> sublist pat s"
  by (induction s) (auto simp: Let_def sublist_Cons_right)

lemma lastIndexOf_append:
  "0 \<le> lastIndexOf w pat \<Longrightarrow> lastIndexOf (u @ w) pat = int (length u) + lastIndexOf w pat"
  by (induction u) (auto simp: Let_def)

lemma lastIndexOf_at_head:
  assumes "pat \<noteq> []" and "\<not> sublist pat (tl (pat @ v))"
  shows "lastIndexOf (pat @ v) pat = 0"
proof -
  obtain c cs where pc: "pat @ v = c # cs"
    using assms(1) by (cases "pat @ v") auto
  have "\<not> 0 \<le> lastIndexOf cs pat"
    using assms(2) pc by (simp add: lastIndexOf_nonneg_iff)
  moreover have "prefix pat (c # cs)"
    using pc by (metis prefixI)
  ultimately show ?thesis
    using pc by (simp add: Let_def)
qed

lemma lastIndexOf_unique:
  assumes "pat \<noteq> []" and "\<not> sublist pat (tl (pat @ v))"
  shows "lastIndexOf (u @ pat @ v) pat = int (length u)"
  using lastIndexOf_append [of "pat @ v" pat u] lastIndexOf_at_head [OF assms] by simp

lemma prefix_shorter:
  assumes "prefix pat (xs @ pat @ v)" and "xs \<noteq> []"
  shows "prefix pat (xs @ butlast pat)"
proof (cases "pat = []")
  case True
  then show ?thesis by simp
next
  case False
  have "prefix (xs @ butlast pat) (xs @ pat @ v)"
    by (simp add: prefix_def) (metis False append_butlast_last_id append_Cons append_Nil append_assoc)
  moreover have "length pat \<le> length (xs @ butlast pat)"
    using assms(2) False by (cases xs) auto
  ultimately show ?thesis
    using assms(1) by (metis prefix_length_prefix)
qed

lemma indexOf_unique:
  "\<not> sublist pat (u @ butlast pat) \<Longrightarrow> indexOf (u @ pat @ v) pat = int (length u)"
proof (induction u)
  case Nil
  have "pat \<noteq> []" using Nil by auto
  then obtain c cs where pc: "pat @ v = c # cs" by (cases "pat @ v") auto
  have "prefix pat (c # cs)" using pc by (metis prefixI)
  then show ?case using pc by simp
next
  case (Cons x u)
  have np: "\<not> prefix pat ((x # u) @ pat @ v)"
  proof
    assume "prefix pat ((x # u) @ pat @ v)"
    then have "prefix pat ((x # u) @ butlast pat)"
      by (rule prefix_shorter) simp
    then have "sublist pat ((x # u) @ butlast pat)"
      by (metis prefix_imp_sublist)
    with Cons.prems show False by simp
  qed
  have "\<not> sublist pat (u @ butlast pat)"
    using Cons.prems by (auto simp: sublist_Cons_right)
  then have "indexOf (u @ pat @ v) pat = int (length u)"
    by (rule Cons.IH)
  then show ?case using np by (simp add: Let_def)
qed

lemma prefix_sep_free:
  "sep \<notin> set c \<Longrightarrow> prefix c (xs @ sep # ys) \<longleftrightarrow> prefix c xs"
proof (induction xs arbitrary: c)
  case Nil
  then show ?case by (cases c) auto
next
  case (Cons x xs)
  then show ?case by (cases c) auto
qed

lemma sublist_sep_head:
  "sep \<notin> set c \<Longrightarrow>
   sublist (sep # c) (xs @ sep # ys) \<longleftrightarrow>
     sublist (sep # c) xs \<or> prefix c ys \<or> sublist (sep # c) ys"
  by (induction xs) (auto simp: sublist_Cons_right prefix_sep_free)

lemma lastIndexOf_is_last:
  "pat \<noteq> [] \<Longrightarrow> 0 \<le> lastIndexOf s pat \<Longrightarrow> \<not> sublist pat (drop (nat (lastIndexOf s pat) + 1) s)"
proof (induction s)
  case Nil
  then show ?case by simp
next
  case (Cons c cs)
  show ?case
  proof (cases "0 \<le> lastIndexOf cs pat")
    case True
    then have "lastIndexOf (c # cs) pat = lastIndexOf cs pat + 1" by (simp add: Let_def)
    moreover have "nat (lastIndexOf cs pat + 1) = Suc (nat (lastIndexOf cs pat))"
      using True by simp
    ultimately show ?thesis using Cons.IH [OF Cons.prems(1) True] by simp
  next
    case False
    then have "\<not> sublist pat cs" by (simp add: lastIndexOf_nonneg_iff)
    moreover have "lastIndexOf (c # cs) pat = 0"
      using False Cons.prems(2) by (simp add: Let_def split: if_splits)
    ultimately show ?thesis by simp
  qed
qed

lemma sublist_drop_mono: "sublist pat (drop (n + m) s) \<Longrightarrow> sublist pat (drop n s)"
proof -
  assume a: "sublist pat (drop (n + m) s)"
  have "drop (n + m) s = drop m (drop n s)" by (simp add: add.commute)
  then obtain ps ss where "drop m (drop n s) = ps @ pat @ ss" using a by (auto simp: sublist_def)
  then have "drop n s = (take m (drop n s) @ ps) @ pat @ ss"
    by (metis append_take_drop_id append.assoc)
  then show ?thesis unfolding sublist_def by blast
qed

lemma sublist_ConsD': "sublist (x # xs) ys \<Longrightarrow> sublist xs ys"
proof -
  assume "sublist (x # xs) ys"
  then obtain ps ss where "ys = ps @ (x # xs) @ ss" by (auto simp: sublist_def)
  then have "ys = (ps @ [x]) @ xs @ ss" by simp
  then show ?thesis unfolding sublist_def by blast
qed

lemma sublist_appendD': "sublist (xs @ zs) ys \<Longrightarrow> sublist xs ys"
proof -
  assume "sublist (xs @ zs) ys"
  then obtain ps ss where "ys = ps @ (xs @ zs) @ ss" by (auto simp: sublist_def)
  then have "ys = ps @ xs @ (zs @ ss)" by simp
  then show ?thesis unfolding sublist_def by blast
qed

lemma bucket_marker_not_later:
  assumes "\<not> sublist ''..s3BucketName..'' k" and "\<not> sublist ''..s3BucketName..'' h"
  shows "\<not> sublist S3_BUCKET_NAME_MARKER
           (tl (S3_BUCKET_NAME_MARKER @ S3_MESSAGE_KEY_MARKER @ k @ S3_MESSAGE_KEY_MARKER @ h))"
proof
  assume "sublist S3_BUCKET_NAME_MARKER
           (tl (S3_BUCKET_NAME_MARKER @ S3_MESSAGE_KEY_MARKER @ k @ S3_MESSAGE_KEY_MARKER @ h))"
  then have "sublist (''-..s3BucketName..'' @ ''-'')
           (''..s3BucketName..-'' @ ''-..s3Key..'' @ CHR ''-'' # k @ CHR ''-'' # ''..s3Key..'' @ CHR ''-'' # h)"
    by (simp add: S3_BUCKET_NAME_MARKER_def S3_MESSAGE_KEY_MARKER_def)
  then have "sublist ''-..s3BucketName..''
           (''..s3BucketName..-'' @ ''-..s3Key..'' @ CHR ''-'' # k @ CHR ''-'' # ''..s3Key..'' @ CHR ''-'' # h)"
    by (rule sublist_appendD')
  then have "sublist ''-..s3BucketName..'' k \<or> prefix ''..s3BucketName..'' k
      \<or> sublist ''-..s3BucketName..'' h \<or> prefix ''..s3BucketName..'' h"
    apply (simp add: sublist_Cons_right)
    apply (simp add: sublist_sep_head prefix_sep_free)
    apply (auto simp add: sublist_Cons_right sublist_sep_head prefix_sep_free)
    done
  then show False
    using assms by (metis sublist_ConsD' prefix_imp_sublist)
qed


lemma key_marker_not_earlier:
  assumes "\<not> sublist ''..s3Key..'' b"
  shows "\<not> sublist S3_MESSAGE_KEY_MARKER
           (S3_BUCKET_NAME_MARKER @ b @ S3_BUCKET_NAME_MARKER @ butlast S3_MESSAGE_KEY_MARKER)"
proof
  assume "sublist S3_MESSAGE_KEY_MARKER
           (S3_BUCKET_NAME_MARKER @ b @ S3_BUCKET_NAME_MARKER @ butlast S3_MESSAGE_KEY_MARKER)"
  then have "sublist (CHR ''-'' # ''..s3Key..-'')
           (''-..s3BucketName..-'' @ b @ ''-..s3BucketName..-'' @ ''-..s3Key..'')"
    by (simp add: S3_BUCKET_NAME_MARKER_def S3_MESSAGE_KEY_MARKER_def)
  then have "sublist ''..s3Key..-''
           (''-..s3BucketName..-'' @ b @ ''-..s3BucketName..-'' @ ''-..s3Key..'')"
    by (rule sublist_ConsD')
  then have "sublist (rev ''..s3Key..-'')
           (rev (''-..s3BucketName..-'' @ b @ ''-..s3BucketName..-'' @ ''-..s3Key..''))"
    by (simp only: sublist_rev)
  then have "sublist (CHR ''-'' # rev ''..s3Key..'')
           (''..yeK3s..-'' @ ''-..emaNtekcuB3s..'' @ CHR ''-'' # rev b @ CHR ''-'' # ''..emaNtekcuB3s..-'')"
    by simp
  then have "sublist (CHR ''-'' # rev ''..s3Key..'') (rev b) \<or> prefix (rev ''..s3Key..'') (rev b)"
    apply (simp add: sublist_Cons_right)
    apply (auto simp add: sublist_Cons_right sublist_sep_head prefix_sep_free)
    done
  then have "sublist (rev ''..s3Key..'') (rev b)"
    by (metis sublist_ConsD' prefix_imp_sublist)
  then show False
    using assms by (simp only: sublist_rev)
qed

lemma key_marker_not_later:
  assumes "\<not> sublist ''..s3Key..'' h"
  shows "\<not> sublist S3_MESSAGE_KEY_MARKER (tl (S3_MESSAGE_KEY_MARKER @ h))"
proof
  assume "sublist S3_MESSAGE_KEY_MARKER (tl (S3_MESSAGE_KEY_MARKER @ h))"
  then have "sublist (''-..s3Key..'' @ ''-'') (''..s3Key..'' @ CHR ''-'' # h)"
    by (simp add: S3_MESSAGE_KEY_MARKER_def)
  then have "sublist ''-..s3Key..'' (''..s3Key..'' @ CHR ''-'' # h)"
    by (rule sublist_appendD')
  then have "sublist ''-..s3Key..'' h \<or> prefix ''..s3Key..'' h"
    apply (simp add: sublist_Cons_right)
    apply (auto simp add: sublist_Cons_right sublist_sep_head prefix_sep_free)
    done
  then show False
    using assms by (metis sublist_ConsD' prefix_imp_sublist)
qed

lemma indexOf_prefix: "prefix pat s \<Longrightarrow> indexOf s pat = 0"
  by (cases s) auto

lemma substring_middle:
  "substring (u @ m @ v) (int (length u)) (int (length u) + int (length m)) = m"
  by (simp add: substring_def Let_def min_def max_def)

lemma substring_from_tail:
  "substring_from (u @ v) (int (length u)) = v"
  by (simp add: substring_from_def)

lemma wrapped_indices:
  assumes "\<not> sublist ''..s3Key..'' b" and "\<not> sublist ''..s3BucketName..'' k"
    and "\<not> sublist ''..s3BucketName..'' h" and "\<not> sublist ''..s3Key..'' h"
  defines "w \<equiv> embedS3MarkersInReceiptHandle b k (Some h)"
  shows "indexOf w S3_BUCKET_NAME_MARKER = 0"
    and "lastIndexOf w S3_BUCKET_NAME_MARKER = int (length (S3_BUCKET_NAME_MARKER @ b))"
    and "indexOf w S3_MESSAGE_KEY_MARKER = int (length (S3_BUCKET_NAME_MARKER @ b @ S3_BUCKET_NAME_MARKER))"
    and "lastIndexOf w S3_MESSAGE_KEY_MARKER =
           int (length (S3_BUCKET_NAME_MARKER @ b @ S3_BUCKET_NAME_MARKER @ S3_MESSAGE_KEY_MARKER @ k))"
proof -
  have bm: "S3_BUCKET_NAME_MARKER \<noteq> []" and km: "S3_MESSAGE_KEY_MARKER \<noteq> []"
    by (simp_all add: S3_BUCKET_NAME_MARKER_def S3_MESSAGE_KEY_MARKER_def)
  show "indexOf w S3_BUCKET_NAME_MARKER = 0"
    unfolding w_def embedS3MarkersInReceiptHandle_def by (rule indexOf_prefix) simp
  have "lastIndexOf ((S3_BUCKET_NAME_MARKER @ b) @ S3_BUCKET_NAME_MARKER @
          (S3_MESSAGE_KEY_MARKER @ k @ S3_MESSAGE_KEY_MARKER @ h)) S3_BUCKET_NAME_MARKER
        = int (length (S3_BUCKET_NAME_MARKER @ b))"
    by (rule lastIndexOf_unique [OF bm bucket_marker_not_later [OF assms(2,3)]])
  then show "lastIndexOf w S3_BUCKET_NAME_MARKER = int (length (S3_BUCKET_NAME_MARKER @ b))"
    unfolding w_def embedS3MarkersInReceiptHandle_def by simp
  have "indexOf ((S3_BUCKET_NAME_MARKER @ b @ S3_BUCKET_NAME_MARKER) @ S3_MESSAGE_KEY_MARKER @
          (k @ S3_MESSAGE_KEY_MARKER @ h)) S3_MESSAGE_KEY_MARKER
        = int (length (S3_BUCKET_NAME_MARKER @ b @ S3_BUCKET_NAME_MARKER))"
    using key_marker_not_earlier [OF assms(1)] by (intro indexOf_unique) simp
  then show "indexOf w S3_MESSAGE_KEY_MARKER = int (length (S3_BUCKET_NAME_MARKER @ b @ S3_BUCKET_NAME_MARKER))"
    unfolding w_def embedS3MarkersInReceiptHandle_def by simp
  have "lastIndexOf ((S3_BUCKET_NAME_MARKER @ b @ S3_BUCKET_NAME_MARKER @ S3_MESSAGE_KEY_MARKER @ k) @
          S3_MESSAGE_KEY_MARKER @ h) S3_MESSAGE_KEY_MARKER
        = int (length (S3_BUCKET_NAME_MARKER @ b @ S3_BUCKET_NAME_MARKER @ S3_MESSAGE_KEY_MARKER @ k))"
    by (rule lastIndexOf_unique [OF km key_marker_not_later [OF assms(4)]])
  then show "lastIndexOf w S3_MESSAGE_KEY_MARKER =
           int (length (S3_BUCKET_NAME_MARKER @ b @ S3_BUCKET_NAME_MARKER @ S3_MESSAGE_KEY_MARKER @ k))"
    unfolding w_def embedS3MarkersInReceiptHandle_def by simp
qed

section \<open>Receipt handles\<close>

text \<open>
  Claim C3, as stated: for all bucket names \<open>b\<close>, keys \<open>k\<close> and handles \<open>h\<close> that do not
  contain the marker literals, unwrapping \<open>embedS3MarkersInReceiptHandle b k h\<close> gives back
  \<open>b\<close>, \<open>k\<close> and \<open>h\<close>. It fails: with the key \<open>..s3BucketName..\<close>, which contains neither
  marker, the hyphens of the key markers around it complete a third bucket marker, and the
  extracted bucket runs up to it.
\<close>

theorem unwrap_wrap_counterexample:
  "\<not> sublist S3_BUCKET_NAME_MARKER ''b'' \<and> \<not> sublist S3_MESSAGE_KEY_MARKER ''b''
   \<and> \<not> sublist S3_BUCKET_NAME_MARKER ''..s3BucketName..''
   \<and> \<not> sublist S3_MESSAGE_KEY_MARKER ''..s3BucketName..''
   \<and> \<not> sublist S3_BUCKET_NAME_MARKER ''h'' \<and> \<not> sublist S3_MESSAGE_KEY_MARKER ''h''
   \<and> extractBucketNameFromReceiptHandle
         (embedS3MarkersInReceiptHandle ''b'' ''..s3BucketName..'' (Some ''h''))
       = Some ''b-..s3BucketName..--..s3Key..''"
  by code_simp

text \<open>
  Claim C3, amended: unwrapping inverts wrapping whenever no marker can be completed across
  a boundary, that is, when \<open>b\<close> does not contain the text \<open>..s3Key..\<close>, \<open>k\<close> does not contain
  \<open>..s3BucketName..\<close>, and \<open>h\<close> contains neither (the markers without their enclosing
  hyphens). Then the extracted bucket is \<open>b\<close>, the extracted key is \<open>k\<close> and the original
  handle is \<open>h\<close>.
\<close>

theorem unwrap_wrap_roundtrip:
  assumes "\<not> sublist ''..s3Key..'' b" and "\<not> sublist ''..s3BucketName..'' k"
    and "\<not> sublist ''..s3BucketName..'' h" and "\<not> sublist ''..s3Key..'' h"
  shows "extractBucketNameFromReceiptHandle (embedS3MarkersInReceiptHandle b k (Some h)) = Some b
       \<and> extractS3MessageKeyFromReceiptHandle (embedS3MarkersInReceiptHandle b k (Some h)) = Some k
       \<and> getOriginReceiptHandle (embedS3MarkersInReceiptHandle b k (Some h)) = h"
proof -
  note ix = wrapped_indices [OF assms]
  have e: "embedS3MarkersInReceiptHandle b k (Some h) =
      S3_BUCKET_NAME_MARKER @ b @ S3_BUCKET_NAME_MARKER @ S3_MESSAGE_KEY_MARKER @ k @ S3_MESSAGE_KEY_MARKER @ h"
    by (simp add: embedS3MarkersInReceiptHandle_def)
  have 1: "extractBucketNameFromReceiptHandle (embedS3MarkersInReceiptHandle b k (Some h)) = Some b"
    unfolding extractBucketNameFromReceiptHandle_def ix
    using substring_middle [of S3_BUCKET_NAME_MARKER b
        "S3_BUCKET_NAME_MARKER @ S3_MESSAGE_KEY_MARKER @ k @ S3_MESSAGE_KEY_MARKER @ h"]
    by (simp add: e)
  have 2: "extractS3MessageKeyFromReceiptHandle (embedS3MarkersInReceiptHandle b k (Some h)) = Some k"
    unfolding extractS3MessageKeyFromReceiptHandle_def ix
    using substring_middle [of "S3_BUCKET_NAME_MARKER @ b @ S3_BUCKET_NAME_MARKER @ S3_MESSAGE_KEY_MARKER" k
        "S3_MESSAGE_KEY_MARKER @ h"]
    by (simp add: e add.assoc add.commute add.left_commute)
  have 3: "getOriginReceiptHandle (embedS3MarkersInReceiptHandle b k (Some h)) = h"
    unfolding getOriginReceiptHandle_def ix
    using substring_from_tail [of
        "S3_BUCKET_NAME_MARKER @ b @ S3_BUCKET_NAME_MARKER @ S3_MESSAGE_KEY_MARKER @ k @ S3_MESSAGE_KEY_MARKER" h]
    by (simp add: e add.assoc add.commute add.left_commute)
  from 1 2 3 show ?thesis by simp
qed

theorem unwrap_wrap_roundtrip_witness:
  "\<not> sublist ''..s3Key..'' ''test-bucket'' \<and> \<not> sublist ''..s3BucketName..'' ''8765-4321''
   \<and> \<not> sublist ''..s3BucketName..'' ''receipthandle'' \<and> \<not> sublist ''..s3Key..'' ''receipthandle''
   \<and> extractBucketNameFromReceiptHandle
         (embedS3MarkersInReceiptHandle ''test-bucket'' ''8765-4321'' (Some ''receipthandle''))
       = Some ''test-bucket''
   \<and> extractS3MessageKeyFromReceiptHandle
         (embedS3MarkersInReceiptHandle ''test-bucket'' ''8765-4321'' (Some ''receipthandle''))
       = Some ''8765-4321''
   \<and> getOriginReceiptHandle
         (embedS3MarkersInReceiptHandle ''test-bucket'' ''8765-4321'' (Some ''receipthandle''))
       = ''receipthandle''"
proof -
  have h: "\<not> sublist ''..s3Key..'' ''test-bucket''" "\<not> sublist ''..s3BucketName..'' ''8765-4321''"
    "\<not> sublist ''..s3BucketName..'' ''receipthandle''" "\<not> sublist ''..s3Key..'' ''receipthandle''"
    by code_simp+
  show ?thesis
    using h unwrap_wrap_roundtrip [OF h] by simp
qed

section \<open>Delete\<close>

lemma origin_has_no_key_marker:
  "\<not> sublist S3_MESSAGE_KEY_MARKER (getOriginReceiptHandle h)"
proof (cases "sublist S3_MESSAGE_KEY_MARKER h")
  case False
  then show ?thesis by (simp add: getOriginReceiptHandle_def indexOf_nonneg_iff)
next
  case True
  let ?i = "lastIndexOf h S3_MESSAGE_KEY_MARKER"
  have km: "S3_MESSAGE_KEY_MARKER \<noteq> []" by (simp add: S3_MESSAGE_KEY_MARKER_def)
  have nn: "0 \<le> ?i" using True by (simp add: lastIndexOf_nonneg_iff)
  have len: "length S3_MESSAGE_KEY_MARKER = 11" by (simp add: S3_MESSAGE_KEY_MARKER_def)
  have m: "nat (min (?i + 11) (int (length h))) = min ((nat ?i + 1) + 10) (length h)"
    using nn by (simp add: min_def) linarith
  have d: "drop (min ((nat ?i + 1) + 10) (length h)) h = drop ((nat ?i + 1) + 10) h"
    by (cases "(nat ?i + 1) + 10 \<le> length h") (simp_all add: min_def)
  have "getOriginReceiptHandle h = drop (nat (min (?i + 11) (int (length h)))) h"
    using True nn by (simp add: getOriginReceiptHandle_def indexOf_nonneg_iff substring_from_def len max_def)
  then have e: "getOriginReceiptHandle h = drop ((nat ?i + 1) + 10) h"
    by (simp only: m d)
  show ?thesis
    unfolding e using lastIndexOf_is_last [OF km nn] sublist_drop_mono by blast
qed

lemma key_marker_absent:
  assumes "\<not> sublist S3_MESSAGE_KEY_MARKER h"
  shows "extractS3MessageKeyFromReceiptHandle h = None" and "getOriginReceiptHandle h = h"
  using assms by (simp_all add: extractS3MessageKeyFromReceiptHandle_def getOriginReceiptHandle_def indexOf_nonneg_iff)

lemma bucket_None_iff:
  "extractBucketNameFromReceiptHandle h = None \<longleftrightarrow> \<not> sublist S3_BUCKET_NAME_MARKER h"
  by (simp add: extractBucketNameFromReceiptHandle_def indexOf_nonneg_iff)

lemma calls_started [simp]: "calls (started ev w) = calls w @ [ev]"
  by (simp add: started_def)

lemma calls_called_back [simp]: "calls (called_back err w) = calls w"
  by (simp add: called_back_def)

lemma deleteS3Content_calls:
  "calls (snd (deleteS3Content e bucket key v)) =
     calls v @ (if truthy bucket then [S3DeleteObject bucket key] else [])"
  by (simp add: deleteS3Content_def)

lemma invokeFnBeforeRequest_calls:
  "calls (snd (invokeFnBeforeRequest request fn callback v)) = calls (snd (fn v))"
  by (simp add: invokeFnBeforeRequest_def split: prod.splits fn_result.splits sum.splits)

lemma deleteMessage_wrapped:
  assumes "extractS3MessageKeyFromReceiptHandle (ReceiptHandle params) = Some k" and "k \<noteq> []"
  shows "deleteMessage e this params callback w =
     (let dp = params\<lparr>ReceiptHandle := getOriginReceiptHandle (ReceiptHandle params)\<rparr>;
          sendFn = invokeFnBeforeRequest (sqs_deleteMessage e dp)
                     (deleteS3Content e (extractBucketNameFromReceiptHandle (ReceiptHandle params)) k);
          w1 = started (SqsDeleteMessage dp) w
      in (Wrapped \<lparr> send = sendFn, promise = sendFn \<rparr>,
          if callback then snd (sendFn True w1) else w1))"
  using assms
  by (simp add: deleteMessage_def prepareDelete_def truthy_def wrapRequest_def Let_def)

lemma deleteMessage_passthrough:
  assumes "\<not> truthy (extractS3MessageKeyFromReceiptHandle (ReceiptHandle params))"
  shows "deleteMessage e this params callback w =
     (Request (sqs_deleteMessage e (params\<lparr>ReceiptHandle := getOriginReceiptHandle (ReceiptHandle params)\<rparr>)),
      started (SqsDeleteMessage (params\<lparr>ReceiptHandle := getOriginReceiptHandle (ReceiptHandle params)\<rparr>)) w)"
  using assms
  by (simp add: deleteMessage_def prepareDelete_def)

lemma deleteMessage_calls:
  "calls (snd (deleteMessage e this params callback w)) =
     calls w @ SqsDeleteMessage (params\<lparr>ReceiptHandle := getOriginReceiptHandle (ReceiptHandle params)\<rparr>)
       # (case extractS3MessageKeyFromReceiptHandle (ReceiptHandle params) of
            None \<Rightarrow> []
          | Some k \<Rightarrow>
              if callback \<and> k \<noteq> [] \<and> truthy (extractBucketNameFromReceiptHandle (ReceiptHandle params))
              then [S3DeleteObject (extractBucketNameFromReceiptHandle (ReceiptHandle params)) k]
              else [])"
proof (cases "extractS3MessageKeyFromReceiptHandle (ReceiptHandle params)")
  case None
  then show ?thesis
    using deleteMessage_passthrough [of params e this callback w] by (simp add: truthy_def)
next
  case (Some k)
  show ?thesis
  proof (cases "k = []")
    case True
    then show ?thesis
      using Some deleteMessage_passthrough [of params e this callback w] by (simp add: truthy_def)
  next
    case False
    show ?thesis
      using Some False deleteMessage_wrapped [OF Some False, of e this callback w]
      by (simp add: Let_def invokeFnBeforeRequest_calls deleteS3Content_calls)
  qed
qed

text \<open>
  Claim C7, as stated: when the key marker is absent from a receipt handle, the original
  handle is the token unchanged and both bucket and key are null, whether or not the bucket
  marker appears. It fails for the bucket: the bucket is extracted on the bucket marker alone,
  so a token with bucket markers and no key marker yields a bucket.
\<close>

theorem passthrough_bucket_counterexample:
  "\<not> sublist S3_MESSAGE_KEY_MARKER ''-..s3BucketName..-b-..s3BucketName..-h''
   \<and> prepareDelete \<lparr> dm_QueueUrl = ''q'', ReceiptHandle = ''-..s3BucketName..-b-..s3BucketName..-h'' \<rparr>
       = (Some ''b'', None, \<lparr> dm_QueueUrl = ''q'', ReceiptHandle = ''-..s3BucketName..-b-..s3BucketName..-h'' \<rparr>)"
  by code_simp

text \<open>
  Claim C7, amended: when the key marker is absent, the key is null, the original handle is
  the token unchanged, and \<open>deleteMessage\<close> only forwards the unchanged request to the queue
  (pass-through); the bucket is null exactly when the bucket marker is absent as well, and a
  bucket extracted without a key is not used.
\<close>

theorem unwrap_without_key_marker:
  assumes "\<not> sublist S3_MESSAGE_KEY_MARKER (ReceiptHandle params)"
  shows "prepareDelete params = (extractBucketNameFromReceiptHandle (ReceiptHandle params), None, params)
       \<and> (extractBucketNameFromReceiptHandle (ReceiptHandle params) = None
            \<longleftrightarrow> \<not> sublist S3_BUCKET_NAME_MARKER (ReceiptHandle params))
       \<and> deleteMessage e this params callback w
           = (Request (sqs_deleteMessage e params), started (SqsDeleteMessage params) w)"
  using key_marker_absent [OF assms]
  by (simp add: prepareDelete_def deleteMessage_def bucket_None_iff truthy_def)

theorem unwrap_without_key_marker_witness:
  "\<not> sublist S3_MESSAGE_KEY_MARKER ''receipthandle''
   \<and> prepareDelete \<lparr> dm_QueueUrl = ''q'', ReceiptHandle = ''receipthandle'' \<rparr>
       = (None, None, \<lparr> dm_QueueUrl = ''q'', ReceiptHandle = ''receipthandle'' \<rparr>)
   \<and> deleteMessage test_env test_client
         \<lparr> dm_QueueUrl = ''q'', ReceiptHandle = ''receipthandle'' \<rparr> False test_world
       = (Request (Inr ()),
          \<lparr> calls = [SqsDeleteMessage \<lparr> dm_QueueUrl = ''q'', ReceiptHandle = ''receipthandle'' \<rparr>],
            callbacks = [], minted = 0 \<rparr>)"
proof -
  have h: "\<not> sublist S3_MESSAGE_KEY_MARKER
             (ReceiptHandle \<lparr> dm_QueueUrl = ''q'', ReceiptHandle = ''receipthandle'' \<rparr>)"
    by code_simp
  have b: "extractBucketNameFromReceiptHandle ''receipthandle'' = None"
    by code_simp
  show ?thesis
    using h unwrap_without_key_marker [OF h, of test_env test_client False test_world]
    by (simp add: b test_env_def test_world_def started_def)
qed

text \<open>
  Claim C4, as stated: on every \<open>deleteMessage\<close> call the queue receives the unwrapped handle,
  the object store receives a delete for the embedded bucket and key whenever a key marker is
  present, and nothing is deleted when no key marker is present. The second part fails: a
  handle whose two key markers enclose an empty key takes the guard \<open>if (!s3MessageKey)\<close>, and
  the object store receives nothing although the key marker is present (here even with a
  callback).
\<close>

theorem deleteMessage_no_object_delete_counterexample:
  "sublist S3_MESSAGE_KEY_MARKER
     ''-..s3BucketName..-test-bucket-..s3BucketName..--..s3Key..--..s3Key..-receipthandle''
   \<and> calls (snd (deleteMessage test_env test_client
        \<lparr> dm_QueueUrl = ''q'',
          ReceiptHandle = ''-..s3BucketName..-test-bucket-..s3BucketName..--..s3Key..--..s3Key..-receipthandle'' \<rparr>
        True test_world))
       = [SqsDeleteMessage \<lparr> dm_QueueUrl = ''q'', ReceiptHandle = ''receipthandle'' \<rparr>]"
  by code_simp

text \<open>
  Claim C4, amended: on every \<open>deleteMessage\<close> call the queue delete is the first request
  started and the only one sent to the queue, with the handle that follows the last key
  marker, which contains no key marker; when the handle embeds a non-empty key and a
  non-empty bucket and \<open>deleteMessage\<close> is given a callback, the object store receives
  exactly one delete, for that bucket and key; when no key marker is present, the request
  goes to the queue unchanged and nothing is deleted from the object store. What a call
  without a callback does to the object store is left out of this statement.
\<close>

theorem deleteMessage_unwraps:
  "\<not> sublist S3_MESSAGE_KEY_MARKER (getOriginReceiptHandle (ReceiptHandle params))
   \<and> (\<exists>rest. calls (snd (deleteMessage e this params callback w)) =
          calls w @ SqsDeleteMessage (params\<lparr>ReceiptHandle := getOriginReceiptHandle (ReceiptHandle params)\<rparr>) # rest
        \<and> (\<forall>x \<in> set rest. \<exists>b k. x = S3DeleteObject b k))
   \<and> (extractS3MessageKeyFromReceiptHandle (ReceiptHandle params) = Some key \<and> key \<noteq> []
        \<and> truthy (extractBucketNameFromReceiptHandle (ReceiptHandle params)) \<longrightarrow>
        calls (snd (deleteMessage e this params True w)) =
          calls w @ [SqsDeleteMessage (params\<lparr>ReceiptHandle := getOriginReceiptHandle (ReceiptHandle params)\<rparr>),
                     S3DeleteObject (extractBucketNameFromReceiptHandle (ReceiptHandle params)) key])
   \<and> (\<not> sublist S3_MESSAGE_KEY_MARKER (ReceiptHandle params) \<longrightarrow>
        deleteMessage e this params callback w =
          (Request (sqs_deleteMessage e params), started (SqsDeleteMessage params) w))"
proof -
  have 1: "\<not> sublist S3_MESSAGE_KEY_MARKER (getOriginReceiptHandle (ReceiptHandle params))"
    by (rule origin_has_no_key_marker)
  have 2: "\<exists>rest. calls (snd (deleteMessage e this params callback w)) =
          calls w @ SqsDeleteMessage (params\<lparr>ReceiptHandle := getOriginReceiptHandle (ReceiptHandle params)\<rparr>) # rest
        \<and> (\<forall>x \<in> set rest. \<exists>b k. x = S3DeleteObject b k)"
    unfolding deleteMessage_calls by (auto split: option.splits)
  have 3: "calls (snd (deleteMessage e this params True w)) =
          calls w @ [SqsDeleteMessage (params\<lparr>ReceiptHandle := getOriginReceiptHandle (ReceiptHandle params)\<rparr>),
                     S3DeleteObject (extractBucketNameFromReceiptHandle (ReceiptHandle params)) key]"
    if k: "extractS3MessageKeyFromReceiptHandle (ReceiptHandle params) = Some key" "key \<noteq> []"
      and b: "truthy (extractBucketNameFromReceiptHandle (ReceiptHandle params))"
    using k b by (simp add: deleteMessage_calls)
  have 4: "deleteMessage e this params callback w =
          (Request (sqs_deleteMessage e params), started (SqsDeleteMessage params) w)"
    if "\<not> sublist S3_MESSAGE_KEY_MARKER (ReceiptHandle params)"
    using key_marker_absent [OF that] deleteMessage_passthrough [of params e this callback w]
    by (simp add: truthy_def)
  from 1 2 3 4 show ?thesis by blast
qed

theorem deleteMessage_unwraps_witness:
  "extractS3MessageKeyFromReceiptHandle
     ''-..s3BucketName..-test-bucket-..s3BucketName..--..s3Key..-8765-4321-..s3Key..-receipthandle''
     = Some ''8765-4321''
   \<and> extractBucketNameFromReceiptHandle
     ''-..s3BucketName..-test-bucket-..s3BucketName..--..s3Key..-8765-4321-..s3Key..-receipthandle''
     = Some ''test-bucket''
   \<and> calls (snd (deleteMessage test_env test_client
        \<lparr> dm_QueueUrl = ''q'',
          ReceiptHandle = ''-..s3BucketName..-test-bucket-..s3BucketName..--..s3Key..-8765-4321-..s3Key..-receipthandle'' \<rparr>
        True test_world))
       = [SqsDeleteMessage \<lparr> dm_QueueUrl = ''q'', ReceiptHandle = ''receipthandle'' \<rparr>,
          S3DeleteObject (Some ''test-bucket'') ''8765-4321'']"
proof -
  let ?h = "''-..s3BucketName..-test-bucket-..s3BucketName..--..s3Key..-8765-4321-..s3Key..-receipthandle''"
  have k: "extractS3MessageKeyFromReceiptHandle ?h = Some ''8765-4321''"
    by code_simp
  have b: "extractBucketNameFromReceiptHandle ?h = Some ''test-bucket''"
    by code_simp
  have o: "getOriginReceiptHandle ?h = ''receipthandle''"
    by code_simp
  show ?thesis
    using deleteMessage_unwraps [of "\<lparr> dm_QueueUrl = ''q'', ReceiptHandle = ?h \<rparr>"
        test_env test_client True test_world "''8765-4321''"]
    by (simp add: k b o truthy_def test_world_def)
qed

text \<open>
  Claim C10, as stated: without a callback, on a receipt handle containing the key marker,
  \<open>deleteMessage\<close> returns a wrapper object on which the object-store deletion has not been
  performed. It fails when the two key markers enclose an empty key: the handle contains the
  key marker, and the value returned is the queue's own promise, not a wrapper.
\<close>

theorem deleteMessage_empty_key_counterexample:
  "sublist S3_MESSAGE_KEY_MARKER ''-..s3Key..--..s3Key..-h''
   \<and> deleteMessage test_env test_client
        \<lparr> dm_QueueUrl = ''q'', ReceiptHandle = ''-..s3Key..--..s3Key..-h'' \<rparr> False test_world
       = (Request (Inr ()),
          \<lparr> calls = [SqsDeleteMessage \<lparr> dm_QueueUrl = ''q'', ReceiptHandle = ''h'' \<rparr>],
            callbacks = [], minted = 0 \<rparr>)"
proof -
  have m: "sublist S3_MESSAGE_KEY_MARKER ''-..s3Key..--..s3Key..-h''"
    by code_simp
  have k: "extractS3MessageKeyFromReceiptHandle ''-..s3Key..--..s3Key..-h'' = Some []"
    by code_simp
  have h: "getOriginReceiptHandle ''-..s3Key..--..s3Key..-h'' = ''h''"
    by code_simp
  show ?thesis
    using m by (simp add: deleteMessage_def prepareDelete_def k h truthy_def test_env_def
        test_world_def started_def)
qed

text \<open>
  Claim C10, amended: when \<open>deleteMessage\<close> is called without a callback on a receipt handle
  from which a non-empty key is extracted, it returns the wrapper object, whose \<open>send\<close> and
  \<open>promise\<close> are the same function; the only request started by the call is the queue delete
  with the original handle, and the object-store delete for the embedded bucket and key is
  started only by that function, when the caller invokes it (and the bucket is not empty).
\<close>

theorem deleteMessage_returns_wrapper:
  assumes "extractS3MessageKeyFromReceiptHandle (ReceiptHandle params) = Some key" and "key \<noteq> []"
  shows "fst (deleteMessage e this params False w) =
           Wrapped \<lparr> send = invokeFnBeforeRequest
                              (sqs_deleteMessage e (params\<lparr>ReceiptHandle := getOriginReceiptHandle (ReceiptHandle params)\<rparr>))
                              (deleteS3Content e (extractBucketNameFromReceiptHandle (ReceiptHandle params)) key),
                     promise = invokeFnBeforeRequest
                              (sqs_deleteMessage e (params\<lparr>ReceiptHandle := getOriginReceiptHandle (ReceiptHandle params)\<rparr>))
                              (deleteS3Content e (extractBucketNameFromReceiptHandle (ReceiptHandle params)) key) \<rparr>
       \<and> snd (deleteMessage e this params False w) =
           started (SqsDeleteMessage (params\<lparr>ReceiptHandle := getOriginReceiptHandle (ReceiptHandle params)\<rparr>)) w
       \<and> calls (snd (invokeFnBeforeRequest
                        (sqs_deleteMessage e (params\<lparr>ReceiptHandle := getOriginReceiptHandle (ReceiptHandle params)\<rparr>))
                        (deleteS3Content e (extractBucketNameFromReceiptHandle (ReceiptHandle params)) key) cb v)) =
           calls v @ (if truthy (extractBucketNameFromReceiptHandle (ReceiptHandle params))
                      then [S3DeleteObject (extractBucketNameFromReceiptHandle (ReceiptHandle params)) key]
                      else [])"
  by (simp add: deleteMessage_wrapped [OF assms] Let_def invokeFnBeforeRequest_calls deleteS3Content_calls)

theorem deleteMessage_returns_wrapper_witness:
  "extractS3MessageKeyFromReceiptHandle
     ''-..s3BucketName..-test-bucket-..s3BucketName..--..s3Key..-8765-4321-..s3Key..-receipthandle''
     = Some ''8765-4321''
   \<and> snd (deleteMessage test_env test_client
        \<lparr> dm_QueueUrl = ''q'',
          ReceiptHandle = ''-..s3BucketName..-test-bucket-..s3BucketName..--..s3Key..-8765-4321-..s3Key..-receipthandle'' \<rparr>
        False test_world)
       = \<lparr> calls = [SqsDeleteMessage \<lparr> dm_QueueUrl = ''q'', ReceiptHandle = ''receipthandle'' \<rparr>],
           callbacks = [], minted = 0 \<rparr>
   \<and> (case fst (deleteMessage test_env test_client
        \<lparr> dm_QueueUrl = ''q'',
          ReceiptHandle = ''-..s3BucketName..-test-bucket-..s3BucketName..--..s3Key..-8765-4321-..s3Key..-receipthandle'' \<rparr>
        False test_world) of
         Request r \<Rightarrow> False
       | Wrapped wr \<Rightarrow>
           calls (snd (promise wr False test_world)) = [S3DeleteObject (Some ''test-bucket'') ''8765-4321''])"
proof -
  let ?h = "''-..s3BucketName..-test-bucket-..s3BucketName..--..s3Key..-8765-4321-..s3Key..-receipthandle''"
  have k: "extractS3MessageKeyFromReceiptHandle
             (ReceiptHandle \<lparr> dm_QueueUrl = ''q'', ReceiptHandle = ?h \<rparr>) = Some ''8765-4321''"
    by code_simp
  have n: "''8765-4321'' \<noteq> []"
    by simp
  have b: "extractBucketNameFromReceiptHandle ?h = Some ''test-bucket''"
    by code_simp
  have o: "getOriginReceiptHandle ?h = ''receipthandle''"
    by code_simp
  show ?thesis
    using k deleteMessage_returns_wrapper [OF k n, of test_env test_client test_world False test_world]
    by (simp add: b o truthy_def test_world_def started_def)
qed

section \<open>Receive\<close>

lemma earliest_mem: "earliest p qs \<in> set (p # qs)"
  by (induction qs arbitrary: p) auto

lemma earliest_le_start: "fst (earliest p qs) \<le> fst p"
proof (induction qs arbitrary: p)
  case Nil
  then show ?case by simp
next
  case (Cons q qs)
  have "fst (earliest (if fst q < fst p then q else p) qs) \<le> fst (if fst q < fst p then q else p)"
    by (rule Cons.IH)
  then show ?case by (auto split: if_splits)
qed

lemma earliest_le: "q \<in> set (p # qs) \<Longrightarrow> fst (earliest p qs) \<le> fst q"
proof (induction qs arbitrary: p)
  case Nil
  then show ?case by simp
next
  case (Cons r qs)
  let ?p' = "if fst r < fst p then r else p"
  have s: "fst (earliest ?p' qs) \<le> fst ?p'" by (rule earliest_le_start)
  show ?case
  proof (cases "q \<in> set qs")
    case True
    then show ?thesis using Cons.IH [of ?p'] by simp
  next
    case False
    then have "q = p \<or> q = r" using Cons.prems by auto
    then show ?thesis using s by (auto split: if_splits)
  qed
qed

lemma promise_all_rejects:
  assumes "rejections ps \<noteq> []"
  shows "\<exists>t err. promise_all ps = (t, Inl err) \<and> (t, err) \<in> set (rejections ps)
           \<and> (\<forall>q \<in> set (rejections ps). t \<le> fst q)"
proof -
  obtain q qs where r: "rejections ps = q # qs"
    using assms by (cases "rejections ps") auto
  obtain t err where e: "earliest q qs = (t, err)"
    by (cases "earliest q qs")
  have "promise_all ps = (t, Inl err)"
    by (simp add: promise_all_def r e)
  moreover have "(t, err) \<in> set (rejections ps)"
    using earliest_mem [of q qs] by (simp add: r e)
  moreover have "\<forall>x \<in> set (rejections ps). t \<le> fst x"
    using earliest_le [of _ q qs] by (simp add: r e)
  ultimately show ?thesis by blast
qed

lemma promise_all_resolves:
  "rejections ps = [] \<Longrightarrow> promise_all ps = (fold max (map fst ps) 0, Inr (fulfilments ps))"
  by (simp add: promise_all_def)

lemma rejections_mem: "(t, Inl err) \<in> set ps \<Longrightarrow> (t, err) \<in> set (rejections ps)"
  by (force simp: rejections_def)

lemma rejections_Nil_iff: "rejections ps = [] \<longleftrightarrow> (\<forall>p \<in> set ps. \<exists>v. snd p = Inr v)"
  by (induction ps) (auto simp: rejections_def split: sum.splits)

lemma fulfilments_all:
  "rejections ps = [] \<Longrightarrow> map snd ps = map Inr (fulfilments ps)"
  by (induction ps) (auto simp: rejections_def fulfilments_def split: sum.splits)

lemma for_each_fst:
  assumes "\<And>x v v'. fst (f x v) = fst (f x v')"
  shows "fst (for_each f xs w) = map (\<lambda>x. fst (f x w)) xs"
proof (induction xs arbitrary: w)
  case Nil
  then show ?case by simp
next
  case (Cons x xs)
  have "map (\<lambda>y. fst (f y (snd (f x w)))) xs = map (\<lambda>y. fst (f y w)) xs"
    using assms by (intro map_cong) auto
  then show ?case
    using Cons.IH [of "snd (f x w)"] by (simp add: case_prod_beta Let_def)
qed

lemma for_each_calls_grow:
  assumes "\<And>x v. \<exists>rest. calls (snd (f x v)) = calls v @ rest"
  shows "\<exists>rest. calls (snd (for_each f xs w)) = calls w @ rest"
proof (induction xs arbitrary: w)
  case Nil
  then show ?case by simp
next
  case (Cons x xs)
  obtain r1 where 1: "calls (snd (f x w)) = calls w @ r1" using assms by blast
  obtain r2 where 2: "calls (snd (for_each f xs (snd (f x w)))) = calls (snd (f x w)) @ r2"
    using Cons.IH by blast
  show ?case using 1 2 by (simp add: case_prod_beta Let_def)
qed

lemma for_each_calls_mem:
  assumes grow: "\<And>x v. \<exists>rest. calls (snd (f x v)) = calls v @ rest"
    and "x \<in> set xs" and ev: "\<And>v. ev \<in> set (calls (snd (f x v)))"
  shows "ev \<in> set (calls (snd (for_each f xs w)))"
  using assms(2)
proof (induction xs arbitrary: w)
  case Nil
  then show ?case by simp
next
  case (Cons y ys)
  show ?case
  proof (cases "x = y")
    case True
    obtain r where "calls (snd (for_each f ys (snd (f y w)))) = calls (snd (f y w)) @ r"
      using for_each_calls_grow [of f ys "snd (f y w)"] grow by blast
    then show ?thesis using ev [of w] True by (simp add: case_prod_beta Let_def)
  next
    case False
    then have "x \<in> set ys" using Cons.prems by simp
    then show ?thesis using Cons.IH [of "snd (f y w)"] by (simp add: case_prod_beta Let_def)
  qed
qed

lemma fulfilments_units:
  fixes ps :: "(nat \<times> (js_error + unit)) list"
  shows "rejections ps = [] \<Longrightarrow> fulfilments ps = map (\<lambda>p. ()) ps"
  by (induction ps) (auto simp: rejections_def fulfilments_def split: sum.splits)

lemma fold_max_ge_start: "(a::nat) \<le> fold max xs a"
proof (induction xs arbitrary: a)
  case Nil
  then show ?case by simp
next
  case (Cons x xs)
  have "max x a \<le> fold max xs (max x a)" by (rule Cons.IH)
  then show ?case by simp
qed

lemma fold_max_ge_mem: "(x::nat) \<in> set xs \<Longrightarrow> x \<le> fold max xs a"
proof (induction xs arbitrary: a)
  case Nil
  then show ?case by simp
next
  case (Cons y ys)
  show ?case
  proof (cases "x = y")
    case True
    have "max y a \<le> fold max ys (max y a)" by (rule fold_max_ge_start)
    then show ?thesis using True by simp
  next
    case False
    then have "x \<in> set ys" using Cons.prems by simp
    then show ?thesis using Cons.IH [of "max y a"] by simp
  qed
qed

lemma objects_at_settled:
  assumes "length rs = length xs" and "\<forall>r \<in> set rs. fst (fst r) \<le> T"
  shows "objects_at T rs xs = map snd rs"
  using assms
proof (induction rs xs rule: list_induct2)
  case Nil
  then show ?case by (simp add: objects_at_def)
next
  case (Cons r rs x xs)
  then show ?case by (simp add: objects_at_def)
qed

lemma objects_at_last:
  assumes "length rs = length xs"
  shows "objects_at (fold max (map fst (map fst rs)) 0) rs xs = map snd rs"
proof (rule objects_at_settled [OF assms])
  show "\<forall>r \<in> set rs. fst (fst r) \<le> fold max (map fst (map fst rs)) 0"
  proof
    fix r assume "r \<in> set rs"
    then have "fst (fst r) \<in> set (map fst (map fst rs))" by force
    then show "fst (fst r) \<le> fold max (map fst (map fst rs)) 0" by (rule fold_max_ge_mem)
  qed
qed

lemma promise_all_at_once:
  assumes "(0, err0) \<in> set (rejections ps)"
    and "\<forall>q \<in> set (rejections ps). fst q = 0 \<longrightarrow> snd q = err0"
  shows "promise_all ps = (0, Inl err0)"
proof -
  have "rejections ps \<noteq> []" using assms(1) by auto
  then obtain t err where p: "promise_all ps = (t, Inl err)"
    and m: "(t, err) \<in> set (rejections ps)" and le: "\<forall>q \<in> set (rejections ps). t \<le> fst q"
    using promise_all_rejects [of ps] by blast
  have "t = 0" using le assms(1) by force
  moreover have "err = err0" using assms(2) m \<open>t = 0\<close> by force
  ultimately show ?thesis using p by simp
qed

lemma rejections_set:
  "(t, err) \<in> set (rejections ps) \<longleftrightarrow> (t, Inl err) \<in> set ps"
  by (induction ps) (auto simp: rejections_def split: sum.splits)

lemma decode_error_value:
  "getS3MessageKeyAndBucket tok = Inl err \<Longrightarrow>
     err = Error ''Can not found match s3MessageKeyRegexMatch''"
  by (auto simp: getS3MessageKeyAndBucket_def split: option.splits if_splits prod.splits)

lemma processReceive_message_fst:
  "fst (processReceive_message e this m v) = fst (processReceive_message e this m v')"
  by (simp add: processReceive_message_def getS3Content_def
      split: sum.splits prod.splits option.splits if_splits)

lemma processReceive_message_grow:
  "\<exists>rest. calls (snd (processReceive_message e this m v)) = calls v @ rest"
  by (auto simp: processReceive_message_def getS3Content_def
      split: sum.splits prod.splits option.splits if_splits)

lemma processReceive_message_fetch:
  assumes "getS3MessageKeyAndBucket (reservedStringValue m) = Inr (b, Some k)" and "k \<noteq> []"
  shows "S3GetObject b k \<in> set (calls (snd (processReceive_message e this m v)))"
    and "s3_getObject e b k = (d, Inl err) \<Longrightarrow>
           fst (processReceive_message e this m v) = ((Suc d, Inl err), m)"
    and "s3_getObject e b k = (d, Inr content) \<Longrightarrow>
           fst (processReceive_message e this m v) =
             ((Suc d, Inr ()),
              m\<lparr>Body := receiveTransform this m (Some content),
                msg_ReceiptHandle := Some (embedS3MarkersInReceiptHandle
                   (case b of None \<Rightarrow> ''null'' | Some x \<Rightarrow> x) k (msg_ReceiptHandle m))\<rparr>)"
  using assms
  by (auto simp: processReceive_message_def getS3Content_def truthy_def
      split: sum.splits prod.splits)

lemma processReceive_message_plain:
  assumes "getS3MessageKeyAndBucket (reservedStringValue m) = Inr (b, key)" and "\<not> truthy key"
  shows "fst (processReceive_message e this m v) =
           ((0, Inr ()), m\<lparr>Body := receiveTransform this m None\<rparr>)"
  using assms by (simp add: processReceive_message_def)

lemma processReceive_message_at_once:
  assumes "fst (fst (processReceive_message e this m v)) = (0, Inl err)"
  shows "err = Error ''Can not found match s3MessageKeyRegexMatch''"
  using assms decode_error_value [of "reservedStringValue m"]
  by (auto simp: processReceive_message_def getS3Content_def
      split: sum.splits prod.splits option.splits if_splits)

lemma checkEvent_record_fst:
  "fst (checkEvent_record e r v) = fst (checkEvent_record e r v')"
  by (simp add: checkEvent_record_def getS3Content_def
      split: sum.splits prod.splits option.splits if_splits)

lemma checkEvent_record_grow:
  "\<exists>rest. calls (snd (checkEvent_record e r v)) = calls v @ rest"
  by (auto simp: checkEvent_record_def getS3Content_def
      split: sum.splits prod.splits option.splits if_splits)

lemma checkEvent_record_fetch:
  assumes "getS3MessageKeyAndBucket (reservedStringValue_record r) = Inr (b, Some k)" and "k \<noteq> []"
  shows "S3GetObject b k \<in> set (calls (snd (checkEvent_record e r v)))"
    and "s3_getObject e b k = (d, Inl err) \<Longrightarrow>
           fst (checkEvent_record e r v) = ((Suc d, Inl err), r)"
    and "s3_getObject e b k = (d, Inr content) \<Longrightarrow>
           fst (checkEvent_record e r v) =
             ((Suc d, Inr ()),
              r\<lparr>ev_body := (if content \<noteq> [] then Some content else ev_body r)\<rparr>)"
  using assms
  by (auto simp: checkEvent_record_def getS3Content_def truthy_def
      split: sum.splits prod.splits)

lemma checkEvent_record_plain:
  assumes "getS3MessageKeyAndBucket (reservedStringValue_record r) = Inr (b, key)" and "\<not> truthy key"
  shows "fst (checkEvent_record e r v) = ((0, Inr ()), r)"
  using assms by (simp add: checkEvent_record_def)

lemma checkEvent_record_at_once:
  assumes "fst (fst (checkEvent_record e r v)) = (0, Inl err)"
  shows "err = Error ''Can not found match s3MessageKeyRegexMatch''"
  using assms decode_error_value [of "reservedStringValue_record r"]
  by (auto simp: checkEvent_record_def getS3Content_def
      split: sum.splits prod.splits option.splits if_splits)

lemma processReceive_outcomes:
  "fst (processReceive e this \<lparr>Messages = Some ms\<rparr> w) =
     (promise_all (map fst (map (\<lambda>m. fst (processReceive_message e this m w)) ms)),
      map (\<lambda>m. fst (processReceive_message e this m w)) ms)"
proof -
  obtain rs w1 where fe: "for_each (processReceive_message e this) ms w = (rs, w1)"
    by (cases "for_each (processReceive_message e this) ms w")
  have "rs = map (\<lambda>m. fst (processReceive_message e this m w)) ms"
    using for_each_fst [of "processReceive_message e this" ms w, OF processReceive_message_fst] fe
    by simp
  then show ?thesis
    by (simp add: processReceive_def fe)
qed

lemma processReceive_calls:
  "snd (processReceive e this \<lparr>Messages = Some ms\<rparr> w) =
     snd (for_each (processReceive_message e this) ms w)"
  by (simp add: processReceive_def split: prod.splits)

lemma checkEvent_outcomes:
  "fst (checkEvent e records w) =
     (promise_all (map fst (map (\<lambda>r. fst (checkEvent_record e r w)) records)),
      map (\<lambda>r. fst (checkEvent_record e r w)) records)"
proof -
  obtain rs w1 where fe: "for_each (checkEvent_record e) records w = (rs, w1)"
    by (cases "for_each (checkEvent_record e) records w")
  have "rs = map (\<lambda>r. fst (checkEvent_record e r w)) records"
    using for_each_fst [of "checkEvent_record e" records w, OF checkEvent_record_fst] fe
    by simp
  then show ?thesis
    by (simp add: checkEvent_def fe)
qed

lemma checkEvent_calls:
  "snd (checkEvent e records w) = snd (for_each (checkEvent_record e) records w)"
  by (simp add: checkEvent_def split: prod.splits)

lemma receiveMessage_result:
  "fst (receiveMessage e this params w) =
     (case sqs_receiveMessage e (modifiedParams params) of
        Inl err \<Rightarrow> Inl err
      | Inr response \<Rightarrow>
          (case fst (processReceive e this response
                       (started (SqsReceiveMessage (modifiedParams params)) w)) of
             ((t, Inl err), rs) \<Rightarrow> Inl err
           | ((t, Inr us), rs) \<Rightarrow> Inr (Some (response_at t rs response))))"
  by (auto simp: receiveMessage_def wrapRequest_def invokeFnAfterRequest_def Let_def
      split: sum.splits prod.splits)

lemma receiveMessage_batch:
  assumes "sqs_receiveMessage e (modifiedParams params) = Inr \<lparr>Messages = Some ms\<rparr>"
  shows "fst (receiveMessage e this params w) =
     (case promise_all (map fst (map (\<lambda>m. fst (processReceive_message e this m w)) ms)) of
        (t, Inl err) \<Rightarrow> Inl err
      | (t, Inr us) \<Rightarrow>
          Inr (Some \<lparr>Messages = Some (map snd (map (\<lambda>m. fst (processReceive_message e this m w)) ms))\<rparr>))"
proof -
  let ?v = "started (SqsReceiveMessage (modifiedParams params)) w"
  let ?rs = "map (\<lambda>m. fst (processReceive_message e this m w)) ms"
  have same: "map (\<lambda>m. fst (processReceive_message e this m ?v)) ms = ?rs"
    using processReceive_message_fst by (intro map_cong) auto
  obtain t r where p: "promise_all (map fst ?rs) = (t, r)"
    by (cases "promise_all (map fst ?rs)")
  show ?thesis
  proof (cases r)
    case (Inl err)
    then show ?thesis
      by (simp add: receiveMessage_result assms processReceive_outcomes same p del: map_map)
  next
    case (Inr us)
    have "rejections (map fst ?rs) = []"
    proof (rule ccontr)
      assume "rejections (map fst ?rs) \<noteq> []"
      then obtain t' err where "promise_all (map fst ?rs) = (t', Inl err)"
        using promise_all_rejects [of "map fst ?rs"] by blast
      then show False using p Inr by simp
    qed
    then have "t = fold max (map fst (map fst ?rs)) 0"
      using promise_all_resolves [of "map fst ?rs"] p by simp
    then have "objects_at t ?rs ms = map snd ?rs"
      using objects_at_last [of ?rs ms] by simp
    then show ?thesis
      using Inr
      by (simp add: receiveMessage_result assms processReceive_outcomes same p response_at_def
          del: map_map)
  qed
qed

lemma decode_throws:
  "s \<noteq> [] \<Longrightarrow> s3MessageKeyRegexMatch s = None \<Longrightarrow>
     getS3MessageKeyAndBucket (Some s) = Inl (Error ''Can not found match s3MessageKeyRegexMatch'')"
  by (simp add: getS3MessageKeyAndBucket_def)

lemma regex_match_iff:
  "s3MessageKeyRegexMatch s \<noteq> None \<longleftrightarrow>
     (\<exists>b r. s = CHR ''('' # b @ CHR '')'' # r \<and> (\<forall>c \<in> set b. \<not> isLineTerminator c))"
proof
  assume "s3MessageKeyRegexMatch s \<noteq> None"
  then obtain rest where s: "s = CHR ''('' # rest"
    and j: "0 \<le> lastIndexOf (takeWhile (\<lambda>x. \<not> isLineTerminator x) rest) '')''"
    by (auto simp: s3MessageKeyRegexMatch_def Let_def split: list.splits if_splits)
  let ?line = "takeWhile (\<lambda>x. \<not> isLineTerminator x) rest"
  from j have "sublist '')'' ?line" by (simp add: lastIndexOf_nonneg_iff)
  then obtain ps ss where l: "?line = ps @ '')'' @ ss" by (auto simp: sublist_def)
  have "rest = ?line @ dropWhile (\<lambda>x. \<not> isLineTerminator x) rest" by simp
  then have "rest = ps @ CHR '')'' # (ss @ dropWhile (\<lambda>x. \<not> isLineTerminator x) rest)"
    using l by simp
  moreover have "\<forall>c \<in> set ps. \<not> isLineTerminator c"
  proof
    fix c assume "c \<in> set ps"
    then have "c \<in> set ?line" using l by simp
    then show "\<not> isLineTerminator c" by (rule set_takeWhileD [THEN conjunct2])
  qed
  ultimately show "\<exists>b r. s = CHR ''('' # b @ CHR '')'' # r \<and> (\<forall>c \<in> set b. \<not> isLineTerminator c)"
    using s by blast
next
  assume "\<exists>b r. s = CHR ''('' # b @ CHR '')'' # r \<and> (\<forall>c \<in> set b. \<not> isLineTerminator c)"
  then obtain b r where s: "s = CHR ''('' # b @ CHR '')'' # r"
    and b: "\<forall>c \<in> set b. \<not> isLineTerminator c" by blast
  have "takeWhile (\<lambda>x. \<not> isLineTerminator x) (b @ CHR '')'' # r)
          = b @ CHR '')'' # takeWhile (\<lambda>x. \<not> isLineTerminator x) r"
    using b by (simp add: takeWhile_append2 isLineTerminator_def)
  then have "sublist '')'' (takeWhile (\<lambda>x. \<not> isLineTerminator x) (b @ CHR '')'' # r))"
    by (simp add: sublist_def) (metis append_Cons append_Nil)
  then have "0 \<le> lastIndexOf (takeWhile (\<lambda>x. \<not> isLineTerminator x) (b @ CHR '')'' # r)) '')''"
    by (simp add: lastIndexOf_nonneg_iff)
  then show "s3MessageKeyRegexMatch s \<noteq> None"
    by (simp add: s3MessageKeyRegexMatch_def Let_def s)
qed

text \<open>
  Claim C6, as stated: decoding an absent token returns the not-offloaded sentinel, and
  decoding any present token that does not match the leading \<open>(bucket)key\<close> pattern raises a
  parse error. The second part fails for the empty string, a present token that does not
  match: the guard \<open>if (!s3MessageKey)\<close> takes it for an absent one.
\<close>

theorem decode_empty_token_counterexample:
  "s3MessageKeyRegexMatch [] = None \<and> getS3MessageKeyAndBucket (Some []) = Inr (None, None)"
  by code_simp

text \<open>
  Claim C6, amended: decoding an absent or empty token returns the sentinel (bucket and key
  null) and raises nothing; decoding a non-empty token that does not match the pattern throws
  the parse error, and the error reaches the caller: a \<open>receiveMessage\<close> whose batch holds
  such a message rejects with the parse error, and \<open>checkEvent\<close> on an event that holds such a
  record rejects with it at once, before any fetch has settled.
  The pattern matches exactly the strings that start with an opening parenthesis and have a
  closing parenthesis further on in the same line (\<open>regex_match_iff\<close>).
\<close>

theorem decode_reference:
  "(\<not> truthy tok \<longrightarrow> getS3MessageKeyAndBucket tok = Inr (None, None))
   \<and> (s \<noteq> [] \<and> s3MessageKeyRegexMatch s = None \<longrightarrow>
        getS3MessageKeyAndBucket (Some s) = Inl (Error ''Can not found match s3MessageKeyRegexMatch'')
        \<and> (m \<in> set ms \<and> reservedStringValue m = Some s
             \<and> sqs_receiveMessage e (modifiedParams params) = Inr \<lparr>Messages = Some ms\<rparr> \<longrightarrow>
             fst (receiveMessage e this params w)
               = Inl (Error ''Can not found match s3MessageKeyRegexMatch''))
        \<and> (r \<in> set records \<and> reservedStringValue_record r = Some s \<longrightarrow>
             fst (fst (checkEvent e records w))
               = (0, Inl (Error ''Can not found match s3MessageKeyRegexMatch''))))"
proof -
  let ?err = "Error ''Can not found match s3MessageKeyRegexMatch''"
  have 1: "getS3MessageKeyAndBucket tok = Inr (None, None)" if "\<not> truthy tok"
    using that by (cases tok) (simp_all add: getS3MessageKeyAndBucket_def truthy_def)
  have 2: "fst (receiveMessage e this params w) = Inl ?err"
    if d: "getS3MessageKeyAndBucket (Some s) = Inl ?err"
      and m: "m \<in> set ms" "reservedStringValue m = Some s"
      and q: "sqs_receiveMessage e (modifiedParams params) = Inr \<lparr>Messages = Some ms\<rparr>"
  proof -
    let ?rs = "map (\<lambda>m. fst (processReceive_message e this m w)) ms"
    have "fst (processReceive_message e this m w) = ((0, Inl ?err), m)"
      using d m(2) by (simp add: processReceive_message_def)
    then have "(0, Inl ?err) \<in> set (map fst ?rs)"
      using m(1) by force
    then have a: "(0, ?err) \<in> set (rejections (map fst ?rs))"
      by (rule rejections_mem)
    have b: "\<forall>q \<in> set (rejections (map fst ?rs)). fst q = 0 \<longrightarrow> snd q = ?err"
    proof (intro ballI impI)
      fix q assume "q \<in> set (rejections (map fst ?rs))" and "fst q = 0"
      then have "(0, snd q) \<in> set (rejections (map fst ?rs))"
        by (metis prod.collapse)
      then have "(0, Inl (snd q)) \<in> set (map fst ?rs)"
        by (simp only: rejections_set)
      then obtain x where "fst (fst (processReceive_message e this x w)) = (0, Inl (snd q))"
        by auto
      then show "snd q = ?err" by (rule processReceive_message_at_once)
    qed
    have "promise_all (map fst ?rs) = (0, Inl ?err)"
      by (rule promise_all_at_once [OF a b])
    then show ?thesis
      by (simp add: receiveMessage_batch [OF q] del: map_map)
  qed
  have 3: "fst (fst (checkEvent e records w)) = (0, Inl ?err)"
    if d: "getS3MessageKeyAndBucket (Some s) = Inl ?err"
      and r: "r \<in> set records" "reservedStringValue_record r = Some s"
  proof -
    let ?rs = "map (\<lambda>r. fst (checkEvent_record e r w)) records"
    have "fst (checkEvent_record e r w) = ((0, Inl ?err), r)"
      using d r(2) by (simp add: checkEvent_record_def)
    then have "(0, Inl ?err) \<in> set (map fst ?rs)"
      using r(1) by force
    then have a: "(0, ?err) \<in> set (rejections (map fst ?rs))"
      by (rule rejections_mem)
    have b: "\<forall>q \<in> set (rejections (map fst ?rs)). fst q = 0 \<longrightarrow> snd q = ?err"
    proof (intro ballI impI)
      fix q assume "q \<in> set (rejections (map fst ?rs))" and "fst q = 0"
      then have "(0, snd q) \<in> set (rejections (map fst ?rs))"
        by (metis prod.collapse)
      then have "(0, Inl (snd q)) \<in> set (map fst ?rs)"
        by (simp only: rejections_set)
      then obtain x where "fst (fst (checkEvent_record e x w)) = (0, Inl (snd q))"
        by auto
      then show "snd q = ?err" by (rule checkEvent_record_at_once)
    qed
    have "promise_all (map fst ?rs) = (0, Inl ?err)"
      by (rule promise_all_at_once [OF a b])
    then show ?thesis
      by (simp add: checkEvent_outcomes del: map_map)
  qed
  show ?thesis
    using 1 2 3 decode_throws [of s] by blast
qed

theorem decode_reference_witness:
  "\<not> truthy None \<and> getS3MessageKeyAndBucket None = Inr (None, None)
   \<and> s3MessageKeyRegexMatch ''8765-4321'' = None
   \<and> getS3MessageKeyAndBucket (Some ''8765-4321'')
       = Inl (Error ''Can not found match s3MessageKeyRegexMatch'')"
proof -
  have t: "\<not> truthy None" by (simp add: truthy_def)
  have n: "s3MessageKeyRegexMatch ''8765-4321'' = None" by code_simp
  show ?thesis
    using t n decode_reference [of None "''8765-4321''"] by simp
qed

text \<open>
  Claim C8, as stated: in \<open>receiveMessage\<close> and \<open>checkEvent\<close> every fetch of a batch is awaited
  to completion whatever happens to the others, and a failure is surfaced attached to the
  outcome of its own message. It fails: the per-message promises are joined by
  \<open>Promise.all\<close>. With the first object missing (its fetch fails at time 2) and the second
  arriving at time 6, the promise of the batch rejects at time 2, when the second fetch has
  not completed and the second record is still as it was received; the caller gets that one
  error as the outcome of the whole call, and \<open>receiveMessage\<close> delivers no response. The
  second record is rewritten all the same, at time 6, after the call has been rejected.
\<close>

theorem batch_failure_counterexample:
  "s3_getObject missing_object_env (Some ''test-bucket'') ''1234-5678'' = (5, Inr ''message body'')
   \<and> fst (fst (processReceive missing_object_env test_client
                  \<lparr> Messages = Some [lost_message, stored_message] \<rparr> test_world))
       = (2, Inl (ServiceError ''NoSuchKey''))
   \<and> map fst (snd (fst (processReceive missing_object_env test_client
                          \<lparr> Messages = Some [lost_message, stored_message] \<rparr> test_world)))
       = [(2, Inl (ServiceError ''NoSuchKey'')), (6, Inr ())]
   \<and> fst (receiveMessage missing_object_env test_client
             \<lparr> rm_QueueUrl = ''test-queue'', MessageAttributeNames = None \<rparr> test_world)
       = Inl (ServiceError ''NoSuchKey'')
   \<and> fst (fst (checkEvent missing_object_env test_records test_world))
       = (2, Inl (ServiceError ''NoSuchKey''))
   \<and> map fst (snd (fst (checkEvent missing_object_env test_records test_world)))
       = [(2, Inl (ServiceError ''NoSuchKey'')), (6, Inr ())]
   \<and> objects_at 2 (snd (fst (checkEvent missing_object_env test_records test_world))) test_records
       = test_records
   \<and> objects_at 6 (snd (fst (checkEvent missing_object_env test_records test_world))) test_records
       = [test_records ! 0, (test_records ! 1)\<lparr>ev_body := Some ''message body''\<rparr>]"
  by code_simp

text \<open>
  Claim C8, amended: in \<open>receiveMessage\<close> (called without a callback) and \<open>checkEvent\<close>, the
  fetch of every offloaded message of the batch is started, whatever the outcome of the
  others, and every message is handled on its own, in place: when its own fetch succeeds its
  body becomes the receive transform of the content and its receipt handle is wrapped (for a
  record of an event the body becomes the content, or stays when the content is empty); when
  its fetch fails it is left as received; a message that is not offloaded gets the receive
  transform of nothing at once (a record is left alone). This also holds after another
  message has failed, so that once the last fetch has settled every message is as its own
  handling leaves it. The outcome of the call is that of \<open>Promise.all\<close>: if no message fails,
  the call resolves when the last fetch has completed, and \<open>receiveMessage\<close> returns the
  response with every message rewritten; if the fetch or the decoding of some message fails,
  the call rejects with the error of the message that fails first, at the time of that
  failure and without waiting for the other fetches, and \<open>receiveMessage\<close> returns that error
  and no response. A failure is thus never dropped and never replaced by the raw body in a
  call that succeeds, but it is the outcome of the whole call, not of its message.
\<close>

theorem batch_is_all_or_nothing:
  "(let rs = map (\<lambda>m. fst (processReceive_message e this m w)) ms;
        ps = map fst rs;
        finish = fold max (map fst ps) 0
    in fst (processReceive e this \<lparr>Messages = Some ms\<rparr> w) = (promise_all ps, rs)
     \<and> objects_at finish rs ms = map snd rs
     \<and> (rejections ps = [] \<longrightarrow> promise_all ps = (finish, Inr (map (\<lambda>m. ()) ms)))
     \<and> (rejections ps \<noteq> [] \<longrightarrow>
          (\<exists>t err. promise_all ps = (t, Inl err) \<and> (t, err) \<in> set (rejections ps)
             \<and> (\<forall>q \<in> set (rejections ps). t \<le> fst q)))
     \<and> (sqs_receiveMessage e (modifiedParams params) = Inr \<lparr>Messages = Some ms\<rparr> \<longrightarrow>
          fst (receiveMessage e this params w) =
            (case promise_all ps of
               (t, Inl err) \<Rightarrow> Inl err
             | (t, Inr us) \<Rightarrow> Inr (Some \<lparr>Messages = Some (map snd rs)\<rparr>))))
   \<and> (getS3MessageKeyAndBucket (reservedStringValue m) = Inr (b, Some k) \<and> k \<noteq> [] \<longrightarrow>
        (m \<in> set ms \<longrightarrow>
           S3GetObject b k \<in> set (calls (snd (processReceive e this \<lparr>Messages = Some ms\<rparr> w))))
        \<and> (s3_getObject e b k = (d, Inl err') \<longrightarrow>
             fst (processReceive_message e this m w) = ((Suc d, Inl err'), m))
        \<and> (s3_getObject e b k = (d, Inr content) \<longrightarrow>
             fst (processReceive_message e this m w) =
               ((Suc d, Inr ()),
                m\<lparr>Body := receiveTransform this m (Some content),
                  msg_ReceiptHandle := Some (embedS3MarkersInReceiptHandle
                     (case b of None \<Rightarrow> ''null'' | Some x \<Rightarrow> x) k (msg_ReceiptHandle m))\<rparr>)))
   \<and> (getS3MessageKeyAndBucket (reservedStringValue m) = Inr (b, key) \<and> \<not> truthy key \<longrightarrow>
        fst (processReceive_message e this m w) =
          ((0, Inr ()), m\<lparr>Body := receiveTransform this m None\<rparr>))
   \<and> (let rs = map (\<lambda>r. fst (checkEvent_record e r w)) records;
           ps = map fst rs;
           finish = fold max (map fst ps) 0
       in fst (checkEvent e records w) = (promise_all ps, rs)
        \<and> objects_at finish rs records = map snd rs
        \<and> (rejections ps = [] \<longrightarrow> promise_all ps = (finish, Inr (map (\<lambda>r. ()) records)))
        \<and> (rejections ps \<noteq> [] \<longrightarrow>
             (\<exists>t err. promise_all ps = (t, Inl err) \<and> (t, err) \<in> set (rejections ps)
                \<and> (\<forall>q \<in> set (rejections ps). t \<le> fst q))))
   \<and> (getS3MessageKeyAndBucket (reservedStringValue_record r) = Inr (b, Some k) \<and> k \<noteq> [] \<longrightarrow>
        (r \<in> set records \<longrightarrow> S3GetObject b k \<in> set (calls (snd (checkEvent e records w))))
        \<and> (s3_getObject e b k = (d, Inl err') \<longrightarrow>
             fst (checkEvent_record e r w) = ((Suc d, Inl err'), r))
        \<and> (s3_getObject e b k = (d, Inr content) \<longrightarrow>
             fst (checkEvent_record e r w) =
               ((Suc d, Inr ()),
                r\<lparr>ev_body := (if content \<noteq> [] then Some content else ev_body r)\<rparr>)))
   \<and> (getS3MessageKeyAndBucket (reservedStringValue_record r) = Inr (b, key) \<and> \<not> truthy key \<longrightarrow>
        fst (checkEvent_record e r w) = ((0, Inr ()), r))"
proof -
  let ?rs = "map (\<lambda>m. fst (processReceive_message e this m w)) ms"
  let ?ps = "map fst ?rs"
  let ?qs = "map (\<lambda>r. fst (checkEvent_record e r w)) records"
  let ?pq = "map fst ?qs"
  have a0: "fst (processReceive e this \<lparr>Messages = Some ms\<rparr> w) = (promise_all ?ps, ?rs)"
    by (rule processReceive_outcomes)
  have a1: "objects_at (fold max (map fst ?ps) 0) ?rs ms = map snd ?rs"
    by (rule objects_at_last) simp
  have a2: "promise_all ?ps = (fold max (map fst ?ps) 0, Inr (map (\<lambda>m. ()) ms))"
    if "rejections ?ps = []"
  proof -
    have "fulfilments ?ps = map (\<lambda>m. ()) ms"
      using fulfilments_units [OF that] by simp
    then show ?thesis
      using promise_all_resolves [OF that] by simp
  qed
  have a3: "\<exists>t err. promise_all ?ps = (t, Inl err) \<and> (t, err) \<in> set (rejections ?ps)
              \<and> (\<forall>q \<in> set (rejections ?ps). t \<le> fst q)"
    if "rejections ?ps \<noteq> []"
    using that by (rule promise_all_rejects)
  have a4: "fst (receiveMessage e this params w) =
            (case promise_all ?ps of
               (t, Inl err) \<Rightarrow> Inl err
             | (t, Inr us) \<Rightarrow> Inr (Some \<lparr>Messages = Some (map snd ?rs)\<rparr>))"
    if "sqs_receiveMessage e (modifiedParams params) = Inr \<lparr>Messages = Some ms\<rparr>"
    using that by (rule receiveMessage_batch)
  have b1: "S3GetObject b k \<in> set (calls (snd (processReceive e this \<lparr>Messages = Some ms\<rparr> w)))"
    if d: "getS3MessageKeyAndBucket (reservedStringValue m) = Inr (b, Some k)" and k: "k \<noteq> []"
      and m: "m \<in> set ms"
    unfolding processReceive_calls
    by (rule for_each_calls_mem [OF processReceive_message_grow m])
       (rule processReceive_message_fetch(1) [OF d k])
  note b2 = processReceive_message_fetch(2) [of m b k e d err' this w]
  note b3 = processReceive_message_fetch(3) [of m b k e d content this w]
  note b4 = processReceive_message_plain [of m b key e this w]
  have c0: "fst (checkEvent e records w) = (promise_all ?pq, ?qs)"
    by (rule checkEvent_outcomes)
  have c1: "objects_at (fold max (map fst ?pq) 0) ?qs records = map snd ?qs"
    by (rule objects_at_last) simp
  have c2: "promise_all ?pq = (fold max (map fst ?pq) 0, Inr (map (\<lambda>r. ()) records))"
    if "rejections ?pq = []"
  proof -
    have "fulfilments ?pq = map (\<lambda>r. ()) records"
      using fulfilments_units [OF that] by simp
    then show ?thesis
      using promise_all_resolves [OF that] by simp
  qed
  have c3: "\<exists>t err. promise_all ?pq = (t, Inl err) \<and> (t, err) \<in> set (rejections ?pq)
              \<and> (\<forall>q \<in> set (rejections ?pq). t \<le> fst q)"
    if "rejections ?pq \<noteq> []"
    using that by (rule promise_all_rejects)
  have d1: "S3GetObject b k \<in> set (calls (snd (checkEvent e records w)))"
    if d: "getS3MessageKeyAndBucket (reservedStringValue_record r) = Inr (b, Some k)"
      and k: "k \<noteq> []" and r: "r \<in> set records"
    unfolding checkEvent_calls
    by (rule for_each_calls_mem [OF checkEvent_record_grow r])
       (rule checkEvent_record_fetch(1) [OF d k])
  note d2 = checkEvent_record_fetch(2) [of r b k e d err' w]
  note d3 = checkEvent_record_fetch(3) [of r b k e d content w]
  note d4 = checkEvent_record_plain [of r b key e w]
  have A: "fst (processReceive e this \<lparr>Messages = Some ms\<rparr> w) = (promise_all ?ps, ?rs)
     \<and> objects_at (fold max (map fst ?ps) 0) ?rs ms = map snd ?rs
     \<and> (rejections ?ps = [] \<longrightarrow>
          promise_all ?ps = (fold max (map fst ?ps) 0, Inr (map (\<lambda>m. ()) ms)))
     \<and> (rejections ?ps \<noteq> [] \<longrightarrow>
          (\<exists>t err. promise_all ?ps = (t, Inl err) \<and> (t, err) \<in> set (rejections ?ps)
             \<and> (\<forall>q \<in> set (rejections ?ps). t \<le> fst q)))
     \<and> (sqs_receiveMessage e (modifiedParams params) = Inr \<lparr>Messages = Some ms\<rparr> \<longrightarrow>
          fst (receiveMessage e this params w) =
            (case promise_all ?ps of
               (t, Inl err) \<Rightarrow> Inl err
             | (t, Inr us) \<Rightarrow> Inr (Some \<lparr>Messages = Some (map snd ?rs)\<rparr>)))"
    using a0 a1 a2 a3 a4 by blast
  have B: "getS3MessageKeyAndBucket (reservedStringValue m) = Inr (b, Some k) \<and> k \<noteq> [] \<longrightarrow>
        (m \<in> set ms \<longrightarrow>
           S3GetObject b k \<in> set (calls (snd (processReceive e this \<lparr>Messages = Some ms\<rparr> w))))
        \<and> (s3_getObject e b k = (d, Inl err') \<longrightarrow>
             fst (processReceive_message e this m w) = ((Suc d, Inl err'), m))
        \<and> (s3_getObject e b k = (d, Inr content) \<longrightarrow>
             fst (processReceive_message e this m w) =
               ((Suc d, Inr ()),
                m\<lparr>Body := receiveTransform this m (Some content),
                  msg_ReceiptHandle := Some (embedS3MarkersInReceiptHandle
                     (case b of None \<Rightarrow> ''null'' | Some x \<Rightarrow> x) k (msg_ReceiptHandle m))\<rparr>))"
    using b1 b2 b3 by blast
  have C: "fst (checkEvent e records w) = (promise_all ?pq, ?qs)
        \<and> objects_at (fold max (map fst ?pq) 0) ?qs records = map snd ?qs
        \<and> (rejections ?pq = [] \<longrightarrow>
             promise_all ?pq = (fold max (map fst ?pq) 0, Inr (map (\<lambda>r. ()) records)))
        \<and> (rejections ?pq \<noteq> [] \<longrightarrow>
             (\<exists>t err. promise_all ?pq = (t, Inl err) \<and> (t, err) \<in> set (rejections ?pq)
                \<and> (\<forall>q \<in> set (rejections ?pq). t \<le> fst q)))"
    using c0 c1 c2 c3 by blast
  have D: "getS3MessageKeyAndBucket (reservedStringValue_record r) = Inr (b, Some k) \<and> k \<noteq> [] \<longrightarrow>
        (r \<in> set records \<longrightarrow> S3GetObject b k \<in> set (calls (snd (checkEvent e records w))))
        \<and> (s3_getObject e b k = (d, Inl err') \<longrightarrow>
             fst (checkEvent_record e r w) = ((Suc d, Inl err'), r))
        \<and> (s3_getObject e b k = (d, Inr content) \<longrightarrow>
             fst (checkEvent_record e r w) =
               ((Suc d, Inr ()),
                r\<lparr>ev_body := (if content \<noteq> [] then Some content else ev_body r)\<rparr>))"
    using d1 d2 d3 by blast
  show ?thesis
    unfolding Let_def using A B b4 C D d4 by blast
qed

theorem batch_is_all_or_nothing_witness:
  "rejections (map fst (map (\<lambda>m. fst (processReceive_message missing_object_env test_client m test_world))
       [lost_message, stored_message])) = [(2, ServiceError ''NoSuchKey'')]
   \<and> fst (fst (processReceive missing_object_env test_client
                 \<lparr>Messages = Some [lost_message, stored_message]\<rparr> test_world))
       = (2, Inl (ServiceError ''NoSuchKey''))
   \<and> getS3MessageKeyAndBucket (reservedStringValue stored_message)
       = Inr (Some ''test-bucket'', Some ''1234-5678'')
   \<and> s3_getObject missing_object_env (Some ''test-bucket'') ''1234-5678'' = (5, Inr ''message body'')
   \<and> S3GetObject (Some ''test-bucket'') ''1234-5678''
       \<in> set (calls (snd (processReceive missing_object_env test_client
                             \<lparr>Messages = Some [lost_message, stored_message]\<rparr> test_world)))
   \<and> fst (processReceive_message missing_object_env test_client stored_message test_world)
       = ((6, Inr ()),
          stored_message
            \<lparr>Body := receiveTransform test_client stored_message (Some ''message body''),
             msg_ReceiptHandle := Some (embedS3MarkersInReceiptHandle ''test-bucket'' ''1234-5678''
                (msg_ReceiptHandle stored_message))\<rparr>)"
proof -
  let ?ps = "map fst (map (\<lambda>m. fst (processReceive_message missing_object_env test_client m test_world))
       [lost_message, stored_message])"
  have r: "rejections ?ps = [(2, ServiceError ''NoSuchKey'')]"
    by code_simp
  have d: "getS3MessageKeyAndBucket (reservedStringValue stored_message)
       = Inr (Some ''test-bucket'', Some ''1234-5678'')"
    by code_simp
  have g: "s3_getObject missing_object_env (Some ''test-bucket'') ''1234-5678''
       = (5, Inr ''message body'')"
    by code_simp
  have m: "stored_message \<in> set [lost_message, stored_message]"
    by simp
  have n: "''1234-5678'' \<noteq> []"
    by simp
  note t = batch_is_all_or_nothing [where e = missing_object_env and this = test_client
        and w = test_world and ms = "[lost_message, stored_message]" and m = stored_message
        and b = "Some ''test-bucket''" and k = "''1234-5678''" and d = 5
        and content = "''message body''", unfolded Let_def]
  have p: "fst (fst (processReceive missing_object_env test_client
                 \<lparr>Messages = Some [lost_message, stored_message]\<rparr> test_world))
       = (2, Inl (ServiceError ''NoSuchKey''))"
  proof -
    have "rejections ?ps \<noteq> []" using r by simp
    then obtain t' err where "promise_all ?ps = (t', Inl err)"
      and "(t', err) \<in> set (rejections ?ps)"
      using t by blast
    then have "promise_all ?ps = (2, Inl (ServiceError ''NoSuchKey''))"
      using r by simp
    moreover have "fst (processReceive missing_object_env test_client
                 \<lparr>Messages = Some [lost_message, stored_message]\<rparr> test_world)
         = (promise_all ?ps, map (\<lambda>m. fst (processReceive_message missing_object_env test_client m test_world))
       [lost_message, stored_message])"
      using t by blast
    ultimately show ?thesis by simp
  qed
  have c: "S3GetObject (Some ''test-bucket'') ''1234-5678''
       \<in> set (calls (snd (processReceive missing_object_env test_client
                             \<lparr>Messages = Some [lost_message, stored_message]\<rparr> test_world)))"
    using t d m n by blast
  have f: "fst (processReceive_message missing_object_env test_client stored_message test_world)
       = ((6, Inr ()),
          stored_message
            \<lparr>Body := receiveTransform test_client stored_message (Some ''message body''),
             msg_ReceiptHandle := Some (embedS3MarkersInReceiptHandle ''test-bucket'' ''1234-5678''
                (msg_ReceiptHandle stored_message))\<rparr>)"
  proof -
    have "fst (processReceive_message missing_object_env test_client stored_message test_world)
       = ((Suc 5, Inr ()),
          stored_message
            \<lparr>Body := receiveTransform test_client stored_message (Some ''message body''),
             msg_ReceiptHandle := Some (embedS3MarkersInReceiptHandle
                (case Some ''test-bucket'' of None \<Rightarrow> ''null'' | Some x \<Rightarrow> x) ''1234-5678''
                (msg_ReceiptHandle stored_message))\<rparr>)"
      using t d g n by blast
    then show ?thesis by simp
  qed
  show ?thesis
    using r p d g c f by blast
qed

section \<open>Send\<close>

lemma sendMessage_passthrough:
  assumes "truthy (bucketName this)"
    and "\<not> truthy (so_s3Content (sendTransform this params)) \<or> existingS3MessageKey params \<noteq> None"
    and "truthy (so_messageBody (sendTransform this params)) \<or> existingS3MessageKey params \<noteq> None"
  shows "sendMessage e this params callback w =
     (let p = params\<lparr>MessageBody :=
                (if truthy (so_messageBody (sendTransform this params))
                 then so_messageBody (sendTransform this params)
                 else (case existingS3MessageKey params of None \<Rightarrow> None | Some attr \<Rightarrow> StringValue attr))\<rparr>
      in (Promise (map_sum id Some (sqs_sendMessage e p)), started (SqsSendMessage p) w))"
  using assms
  by (auto simp: sendMessage_def prepareSend_def Let_def truthy_def split: option.splits)

lemma sendMessage_offload:
  assumes "bucketName this = Some b" and "b \<noteq> []"
    and "truthy (so_s3Content (sendTransform this params))"
    and "existingS3MessageKey params = None"
    and "uuid e (minted w) \<noteq> []"
  shows "sendMessage e this params False w =
     (let key = uuid e (minted w);
          p = params
            \<lparr>MessageAttributes :=
               Some (addS3MessageKeyAttribute (''('' @ b @ '')'' @ key) (MessageAttributes params)),
             MessageBody := (if truthy (so_messageBody (sendTransform this params))
                             then so_messageBody (sendTransform this params) else Some key)\<rparr>
      in (Promise (case s3_putObject e (Some b) key (so_s3Content (sendTransform this params)) of
                     Inl err \<Rightarrow> Inl err
                   | Inr u \<Rightarrow> map_sum id Some (sqs_sendMessage e p)),
          w\<lparr>calls := calls w @ [SqsSendMessage p,
                                 S3PutObject (Some b) key (so_s3Content (sendTransform this params))],
            minted := Suc (minted w)\<rparr>))"
  using assms
  by (simp add: sendMessage_def prepareSend_def Let_def truthy_def v4_def wrapRequest_def
      invokeFnBeforeRequest_def storeS3Content_def started_def
      split: option.splits sum.splits)

lemma reserved_attribute_added:
  "map_of (addS3MessageKeyAttribute token attrs) RESERVED_ATTRIBUTE_NAME =
     Some \<lparr> DataType = Some ''String'', StringValue = Some token, BinaryValue = None \<rparr>"
  by (simp add: addS3MessageKeyAttribute_def RESERVED_ATTRIBUTE_NAME_def update_conv')

lemma isLarge_size:
  "MessageBody params = Some body \<Longrightarrow>
   isLarge params threshold \<longleftrightarrow>
     (case threshold of None \<Rightarrow> DEFAULT_MESSAGE_SIZE_THRESHOLD | Some t \<Rightarrow> t)
       < int (getMessageAttributesSize (MessageAttributes params) + byteLength body)"
  by (cases body) (auto simp: isLarge_def Let_def getMessageAttributesSize_def byteLength_def
      split: option.splits)

text \<open>
  Claim C9: with a bucket configured, when the send transform declines to offload (its
  \<open>s3Content\<close> is falsy), its \<open>messageBody\<close> is falsy too (for example the message has no
  body, or an empty one) and the message carries no reserved attribute, \<open>_prepareSend\<close> reads
  \<open>StringValue\<close> of an \<open>undefined\<close> attribute: \<open>sendMessage\<close> throws a \<open>TypeError\<close> and nothing
  is sent to the queue or to the object store.
\<close>

theorem sendMessage_falsy_body_throws:
  assumes "truthy (bucketName this)"
    and "\<not> truthy (so_s3Content (sendTransform this params))"
    and "\<not> truthy (so_messageBody (sendTransform this params))"
    and "existingS3MessageKey params = None"
  shows "sendMessage e this params callback w =
           (Thrown (TypeError ''Cannot read properties of undefined (reading StringValue)''), w)"
  using assms by (simp add: sendMessage_def prepareSend_def Let_def)

theorem sendMessage_falsy_body_throws_witness:
  "truthy (bucketName test_client)
   \<and> \<not> truthy (so_s3Content (sendTransform test_client (small_message\<lparr>MessageBody := Some []\<rparr>)))
   \<and> \<not> truthy (so_messageBody (sendTransform test_client (small_message\<lparr>MessageBody := Some []\<rparr>)))
   \<and> existingS3MessageKey (small_message\<lparr>MessageBody := Some []\<rparr>) = None
   \<and> sendMessage test_env test_client (small_message\<lparr>MessageBody := Some []\<rparr>) False test_world =
        (Thrown (TypeError ''Cannot read properties of undefined (reading StringValue)''), test_world)"
proof -
  have 1: "truthy (bucketName test_client)" by code_simp
  have 2: "\<not> truthy (so_s3Content (sendTransform test_client (small_message\<lparr>MessageBody := Some []\<rparr>)))"
    by code_simp
  have 3: "\<not> truthy (so_messageBody (sendTransform test_client (small_message\<lparr>MessageBody := Some []\<rparr>)))"
    by code_simp
  have 4: "existingS3MessageKey (small_message\<lparr>MessageBody := Some []\<rparr>) = None"
    by code_simp
  show ?thesis
    using 1 2 3 4 sendMessage_falsy_body_throws [OF 1 2 3 4, of test_env False test_world]
    by simp
qed

text \<open>
  Claim C5, as stated: when the reserved attribute is already present on the message given
  to \<open>sendMessage\<close>, the outgoing body is that attribute's string value, nothing is uploaded
  and no key is minted. The first part fails: the body is \<open>sendObj.messageBody ||
  existingS3MessageKey.StringValue\<close>, so a small message keeps its own body.
\<close>

theorem existing_attribute_body_counterexample:
  "existingS3MessageKey
     (small_message\<lparr>MessageAttributes :=
        Some [(''S3MessageBodyKey'',
               \<lparr> DataType = Some ''String'', StringValue = Some ''(test-bucket)8765-4321'',
                 BinaryValue = None \<rparr>)]\<rparr>)
     = Some \<lparr> DataType = Some ''String'', StringValue = Some ''(test-bucket)8765-4321'',
              BinaryValue = None \<rparr>
   \<and> calls (snd (sendMessage test_env test_client
        (small_message\<lparr>MessageAttributes :=
           Some [(''S3MessageBodyKey'',
                  \<lparr> DataType = Some ''String'', StringValue = Some ''(test-bucket)8765-4321'',
                    BinaryValue = None \<rparr>)]\<rparr>) False test_world))
     = [SqsSendMessage
          \<lparr> QueueUrl = ''test-queue'', MessageBody = Some ''small message body'',
            MessageAttributes =
              Some [(''S3MessageBodyKey'',
                     \<lparr> DataType = Some ''String'', StringValue = Some ''(test-bucket)8765-4321'',
                       BinaryValue = None \<rparr>)] \<rparr>]"
  by code_simp

text \<open>
  Claim C5, amended: when the reserved attribute is already present on the message given to
  \<open>sendMessage\<close> (and a bucket is configured), the only request is the queue send, nothing is
  uploaded and no key is minted; the outgoing body is the message body chosen by the send
  transform when that is not empty, and the attribute's string value otherwise. The default
  transform chooses the original body unless the message is large or \<open>alwaysUseS3\<close> is set,
  and no body in those two cases.
\<close>

theorem sendMessage_existing_attribute:
  assumes "truthy (bucketName this)" and "existingS3MessageKey params = Some attr"
  shows "(let p = params\<lparr>MessageBody :=
                (if truthy (so_messageBody (sendTransform this params))
                 then so_messageBody (sendTransform this params) else StringValue attr)\<rparr>
          in sendMessage e this params callback w =
               (Promise (map_sum id Some (sqs_sendMessage e p)), started (SqsSendMessage p) w)
           \<and> calls (snd (sendMessage e this params callback w)) = calls w @ [SqsSendMessage p]
           \<and> minted (snd (sendMessage e this params callback w)) = minted w)
       \<and> (sendTransform this = defaultSendTransform always threshold \<longrightarrow>
            so_messageBody (sendTransform this params) =
              (if always = Some True \<or> isLarge params threshold then None else MessageBody params))"
  using assms sendMessage_passthrough [of this params e callback w]
  by (simp add: Let_def started_def defaultSendTransform_def)

theorem sendMessage_existing_attribute_witness:
  "truthy (bucketName (client_with_threshold 49))
   \<and> existingS3MessageKey
     (small_message\<lparr>MessageAttributes :=
        Some [(''S3MessageBodyKey'',
               \<lparr> DataType = Some ''String'', StringValue = Some ''(test-bucket)8765-4321'',
                 BinaryValue = None \<rparr>)]\<rparr>)
     = Some \<lparr> DataType = Some ''String'', StringValue = Some ''(test-bucket)8765-4321'',
              BinaryValue = None \<rparr>
   \<and> snd (sendMessage test_env (client_with_threshold 49)
        (small_message\<lparr>MessageAttributes :=
           Some [(''S3MessageBodyKey'',
                  \<lparr> DataType = Some ''String'', StringValue = Some ''(test-bucket)8765-4321'',
                    BinaryValue = None \<rparr>)]\<rparr>) False test_world)
     = \<lparr> calls = [SqsSendMessage
          \<lparr> QueueUrl = ''test-queue'', MessageBody = Some ''(test-bucket)8765-4321'',
            MessageAttributes =
              Some [(''S3MessageBodyKey'',
                     \<lparr> DataType = Some ''String'', StringValue = Some ''(test-bucket)8765-4321'',
                       BinaryValue = None \<rparr>)] \<rparr>],
         callbacks = [], minted = 0 \<rparr>"
proof -
  let ?m = "small_message\<lparr>MessageAttributes :=
        Some [(''S3MessageBodyKey'',
               \<lparr> DataType = Some ''String'', StringValue = Some ''(test-bucket)8765-4321'',
                 BinaryValue = None \<rparr>)]\<rparr>"
  have 1: "truthy (bucketName (client_with_threshold 49))" by code_simp
  have 2: "existingS3MessageKey ?m
     = Some \<lparr> DataType = Some ''String'', StringValue = Some ''(test-bucket)8765-4321'',
              BinaryValue = None \<rparr>"
    by code_simp
  have 3: "so_messageBody (sendTransform (client_with_threshold 49) ?m) = None"
    by code_simp
  have r: "snd (sendMessage test_env (client_with_threshold 49) ?m False test_world)
             = started (SqsSendMessage (?m\<lparr>MessageBody := Some ''(test-bucket)8765-4321''\<rparr>)) test_world"
    using sendMessage_existing_attribute [OF 1 2, of test_env False test_world]
    by (simp add: 3 Let_def truthy_def)
  have v: "started (SqsSendMessage (?m\<lparr>MessageBody := Some ''(test-bucket)8765-4321''\<rparr>)) test_world
     = \<lparr> calls = [SqsSendMessage
          \<lparr> QueueUrl = ''test-queue'', MessageBody = Some ''(test-bucket)8765-4321'',
            MessageAttributes =
              Some [(''S3MessageBodyKey'',
                     \<lparr> DataType = Some ''String'', StringValue = Some ''(test-bucket)8765-4321'',
                       BinaryValue = None \<rparr>)] \<rparr>],
         callbacks = [], minted = 0 \<rparr>"
    by code_simp
  show ?thesis
    using 1 2 r v by simp
qed

text \<open>
  Claim C1, as stated: with the default transform, a message under the threshold is sent
  unchanged, and a message at or over the threshold is offloaded. It fails at the threshold
  itself: \<open>isLarge\<close> compares with \<open>>\<close>, and the 50-byte message below is sent unchanged by
  a client whose threshold is 50.
\<close>

theorem threshold_boundary_counterexample:
  "int (getMessageAttributesSize (MessageAttributes small_message) + byteLength ''small message body'') = 50
   \<and> MessageBody small_message = Some ''small message body''
   \<and> sendMessage test_env (client_with_threshold 50) small_message False test_world =
        (Promise (Inr (Some ''test message id'')),
         \<lparr> calls = [SqsSendMessage small_message], callbacks = [], minted = 0 \<rparr>)"
  by code_simp

text \<open>
  Claim C1, amended: for a client with a bucket and the default transform, and a message
  with a non-empty body, whose estimated size is the byte length of its attribute names,
  types and values plus that of its body: if \<open>alwaysUseS3\<close> is not set and the size is at most
  the threshold, \<open>sendMessage\<close> sends the message unchanged (same body, same attributes) and
  starts no upload; if \<open>alwaysUseS3\<close> is set or the size exceeds the threshold, and the
  message carries no reserved attribute, then \<open>sendMessage\<close> without a callback mints one
  key, starts exactly one upload of the original body under that key, sends the key as the
  body, and the reserved attribute of the outgoing message is \<open>(bucketName)key\<close>.
\<close>

theorem sendMessage_default_transform:
  assumes "this = new_SQSExtended opts" and "opt_sendTransform opts = None"
    and "opt_bucketName opts = Some b" and "b \<noteq> []"
    and "MessageBody params = Some body" and "body \<noteq> []"
  shows "(opt_alwaysUseS3 opts \<noteq> Some True
          \<and> int (getMessageAttributesSize (MessageAttributes params) + byteLength body)
              \<le> (case opt_messageSizeThreshold opts of
                    None \<Rightarrow> DEFAULT_MESSAGE_SIZE_THRESHOLD | Some t \<Rightarrow> t) \<longrightarrow>
          sendMessage e this params callback w =
            (Promise (map_sum id Some (sqs_sendMessage e params)), started (SqsSendMessage params) w))
       \<and> ((opt_alwaysUseS3 opts = Some True
            \<or> (case opt_messageSizeThreshold opts of
                  None \<Rightarrow> DEFAULT_MESSAGE_SIZE_THRESHOLD | Some t \<Rightarrow> t)
                < int (getMessageAttributesSize (MessageAttributes params) + byteLength body))
           \<and> existingS3MessageKey params = None \<and> uuid e (minted w) \<noteq> [] \<longrightarrow>
          (let key = uuid e (minted w);
               token = ''('' @ b @ '')'' @ key;
               attrs = addS3MessageKeyAttribute token (MessageAttributes params);
               p = params\<lparr>MessageAttributes := Some attrs, MessageBody := Some key\<rparr>
           in sendMessage e this params False w =
                (Promise (case s3_putObject e (Some b) key (Some body) of
                            Inl err \<Rightarrow> Inl err
                          | Inr u \<Rightarrow> map_sum id Some (sqs_sendMessage e p)),
                 w\<lparr>calls := calls w @ [SqsSendMessage p, S3PutObject (Some b) key (Some body)],
                   minted := Suc (minted w)\<rparr>)
              \<and> map_of attrs RESERVED_ATTRIBUTE_NAME =
                  Some \<lparr> DataType = Some ''String'', StringValue = Some token, BinaryValue = None \<rparr>))"
proof -
  let ?limit = "case opt_messageSizeThreshold opts of
                  None \<Rightarrow> DEFAULT_MESSAGE_SIZE_THRESHOLD | Some t \<Rightarrow> t"
  let ?size = "int (getMessageAttributesSize (MessageAttributes params) + byteLength body)"
  have st: "sendTransform this = defaultSendTransform (opt_alwaysUseS3 opts) (opt_messageSizeThreshold opts)"
    and bn: "bucketName this = Some b"
    using assms(1,2,3) by (simp_all add: new_SQSExtended_def)
  have large: "isLarge params (opt_messageSizeThreshold opts) \<longleftrightarrow> ?limit < ?size"
    by (rule isLarge_size [OF assms(5)])
  have small: "sendMessage e this params callback w =
            (Promise (map_sum id Some (sqs_sendMessage e params)), started (SqsSendMessage params) w)"
    if "opt_alwaysUseS3 opts \<noteq> Some True" and "?size \<le> ?limit"
  proof -
    have t: "sendTransform this params = \<lparr> so_s3Content = None, so_messageBody = Some body \<rparr>"
      using that large assms(5) by (simp add: st defaultSendTransform_def)
    have "params\<lparr>MessageBody := Some body\<rparr> = params"
      using assms(5) by simp
    then show ?thesis
      using sendMessage_passthrough [of this params e callback w] assms(4,6)
      by (simp add: t bn truthy_def Let_def)
  qed
  have big: "sendMessage e this params False w =
                (Promise (case s3_putObject e (Some b) (uuid e (minted w)) (Some body) of
                            Inl err \<Rightarrow> Inl err
                          | Inr u \<Rightarrow> map_sum id Some (sqs_sendMessage e
                              (params\<lparr>MessageAttributes :=
                                  Some (addS3MessageKeyAttribute (''('' @ b @ '')'' @ uuid e (minted w))
                                          (MessageAttributes params)),
                                MessageBody := Some (uuid e (minted w))\<rparr>))),
                 w\<lparr>calls := calls w @
                    [SqsSendMessage
                       (params\<lparr>MessageAttributes :=
                           Some (addS3MessageKeyAttribute (''('' @ b @ '')'' @ uuid e (minted w))
                                   (MessageAttributes params)),
                         MessageBody := Some (uuid e (minted w))\<rparr>),
                     S3PutObject (Some b) (uuid e (minted w)) (Some body)],
                   minted := Suc (minted w)\<rparr>)"
    if "opt_alwaysUseS3 opts = Some True \<or> ?limit < ?size"
      and x: "existingS3MessageKey params = None" and u: "uuid e (minted w) \<noteq> []"
  proof -
    have t: "sendTransform this params = \<lparr> so_s3Content = Some body, so_messageBody = None \<rparr>"
      using that(1) large assms(5) by (auto simp: st defaultSendTransform_def)
    have c: "truthy (so_s3Content (sendTransform this params))"
      using assms(6) by (simp add: t truthy_def)
    show ?thesis
      using sendMessage_offload [OF bn assms(4) c x u]
      by (simp add: t truthy_def Let_def split: sum.splits)
  qed
  show ?thesis
    unfolding Let_def using small big reserved_attribute_added by blast
qed

theorem sendMessage_default_transform_witness:
  "int (getMessageAttributesSize (MessageAttributes small_message) + byteLength ''small message body'') = 50
   \<and> sendMessage test_env (client_with_threshold 50) small_message False test_world =
        (Promise (Inr (Some ''test message id'')),
         \<lparr> calls = [SqsSendMessage small_message], callbacks = [], minted = 0 \<rparr>)
   \<and> existingS3MessageKey small_message = None
   \<and> sendMessage test_env (client_with_threshold 49) small_message False test_world =
        (Promise (Inr (Some ''test message id'')),
         \<lparr> calls =
             [SqsSendMessage
                \<lparr> QueueUrl = ''test-queue'', MessageBody = Some ''1234-5678'',
                  MessageAttributes =
                    Some [(''MessageAttribute'',
                           \<lparr> DataType = Some ''String'', StringValue = Some ''attr value'',
                             BinaryValue = None \<rparr>),
                          (''S3MessageBodyKey'',
                           \<lparr> DataType = Some ''String'', StringValue = Some ''(test-bucket)1234-5678'',
                             BinaryValue = None \<rparr>)] \<rparr>,
              S3PutObject (Some ''test-bucket'') ''1234-5678'' (Some ''small message body'')],
           callbacks = [], minted = 1 \<rparr>)"
proof -
  let ?opts = "\<lambda>t. \<lparr> opt_bucketName = Some ''test-bucket'', opt_alwaysUseS3 = None,
         opt_messageSizeThreshold = Some t, opt_sendTransform = None,
         opt_receiveTransform = None \<rparr>"
  have sz: "int (getMessageAttributesSize (MessageAttributes small_message)
              + byteLength ''small message body'') = 50"
    by code_simp
  have b: "MessageBody small_message = Some ''small message body''"
    by code_simp
  have x: "existingS3MessageKey small_message = None"
    by code_simp
  have u: "uuid test_env (minted test_world) = ''1234-5678''"
    by code_simp
  have lo: "sendMessage test_env (client_with_threshold 50) small_message False test_world =
        (Promise (map_sum id Some (sqs_sendMessage test_env small_message)),
         started (SqsSendMessage small_message) test_world)"
    using sendMessage_default_transform [of "client_with_threshold 50" "?opts 50" "''test-bucket''"
        small_message "''small message body''" test_env False test_world] sz b
    by (simp add: client_with_threshold_def)
  have hi: "sendMessage test_env (client_with_threshold 49) small_message False test_world =
        (Promise (case s3_putObject test_env (Some ''test-bucket'') ''1234-5678'' (Some ''small message body'') of
                    Inl err \<Rightarrow> Inl err
                  | Inr u \<Rightarrow> map_sum id Some (sqs_sendMessage test_env
                      (small_message
                         \<lparr>MessageAttributes :=
                            Some (addS3MessageKeyAttribute ''(test-bucket)1234-5678''
                                    (MessageAttributes small_message)),
                          MessageBody := Some ''1234-5678''\<rparr>))),
         test_world\<lparr>calls := calls test_world @
            [SqsSendMessage
               (small_message
                  \<lparr>MessageAttributes :=
                     Some (addS3MessageKeyAttribute ''(test-bucket)1234-5678''
                             (MessageAttributes small_message)),
                   MessageBody := Some ''1234-5678''\<rparr>),
             S3PutObject (Some ''test-bucket'') ''1234-5678'' (Some ''small message body'')],
           minted := Suc (minted test_world)\<rparr>)"
    using sendMessage_default_transform [of "client_with_threshold 49" "?opts 49" "''test-bucket''"
        small_message "''small message body''" test_env False test_world] sz b x u
    by (simp add: client_with_threshold_def Let_def split: sum.splits)
  have v1: "(Promise (map_sum id Some (sqs_sendMessage test_env small_message)),
         started (SqsSendMessage small_message) test_world)
      = (Promise (Inr (Some ''test message id'')),
         \<lparr> calls = [SqsSendMessage small_message], callbacks = [], minted = 0 \<rparr>)"
    by code_simp
  have v2: "(Promise (case s3_putObject test_env (Some ''test-bucket'') ''1234-5678'' (Some ''small message body'') of
                    Inl err \<Rightarrow> Inl err
                  | Inr u \<Rightarrow> map_sum id Some (sqs_sendMessage test_env
                      (small_message
                         \<lparr>MessageAttributes :=
                            Some (addS3MessageKeyAttribute ''(test-bucket)1234-5678''
                                    (MessageAttributes small_message)),
                          MessageBody := Some ''1234-5678''\<rparr>))),
         test_world\<lparr>calls := calls test_world @
            [SqsSendMessage
               (small_message
                  \<lparr>MessageAttributes :=
                     Some (addS3MessageKeyAttribute ''(test-bucket)1234-5678''
                             (MessageAttributes small_message)),
                   MessageBody := Some ''1234-5678''\<rparr>),
             S3PutObject (Some ''test-bucket'') ''1234-5678'' (Some ''small message body'')],
           minted := Suc (minted test_world)\<rparr>)
      = (Promise (Inr (Some ''test message id'')),
         \<lparr> calls =
             [SqsSendMessage
                \<lparr> QueueUrl = ''test-queue'', MessageBody = Some ''1234-5678'',
                  MessageAttributes =
                    Some [(''MessageAttribute'',
                           \<lparr> DataType = Some ''String'', StringValue = Some ''attr value'',
                             BinaryValue = None \<rparr>),
                          (''S3MessageBodyKey'',
                           \<lparr> DataType = Some ''String'', StringValue = Some ''(test-bucket)1234-5678'',
                             BinaryValue = None \<rparr>)] \<rparr>,
              S3PutObject (Some ''test-bucket'') ''1234-5678'' (Some ''small message body'')],
           callbacks = [], minted = 1 \<rparr>)"
    by code_simp
  show ?thesis
    using sz x lo hi v1 v2 by simp
qed

text \<open>
  Claim C2: on the offload path the upload completes before the queue send, and when the
  upload fails the send fails with the upload's error and the message never reaches the
  queue with a reference to an object that does not exist. The client written with async
  functions does this: it awaits the upload, and sends only when it has succeeded.
\<close>

lemma sendMessage_async_upload_first:
  assumes "as_bucketName this = Some b" and "b \<noteq> []"
    and "MessageBody params = Some body" and "body \<noteq> []"
    and "as_alwaysUseS3 this \<or> isLarge params (Some (as_messageSizeThreshold this))"
    and "existingS3MessageKey params = None" and "uuid e (minted w) \<noteq> []"
  shows "sendMessage_async e this params w =
     (let key = uuid e (minted w);
          p = params
            \<lparr>MessageAttributes :=
               Some (addS3MessageKeyAttribute (''('' @ b @ '')'' @ key) (MessageAttributes params)),
             MessageBody := Some key\<rparr>
      in case s3_putObject e (Some b) key (Some body) of
           Inl err \<Rightarrow>
             (Inl err, w\<lparr>calls := calls w @ [S3PutObject (Some b) key (Some body)],
                          minted := Suc (minted w)\<rparr>)
         | Inr u \<Rightarrow>
             (sqs_sendMessage e p,
              w\<lparr>calls := calls w @ [S3PutObject (Some b) key (Some body), SqsSendMessage p],
                minted := Suc (minted w)\<rparr>))"
  using assms
  by (auto simp: sendMessage_async_def prepareSend_async_def Let_def truthy_def v4_def started_def
      split: sum.splits)

text \<open>
  Claim C2 does not hold of \<open>sendMessage\<close>, which calls \<open>this.sqs.sendMessage(sendParams)\<close>
  first and hands the promise it gets to \<open>invokeFnBeforeRequest\<close>: the queue send is already
  started when the upload starts. When the upload fails, the promise returned by
  \<open>sendMessage\<close> rejects with the upload's error, but the message, whose body is the key
  and whose reserved attribute names an object that was never stored, has gone to the queue.
\<close>

theorem sendMessage_sends_before_upload:
  assumes "bucketName this = Some b" and "b \<noteq> []"
    and "truthy (so_s3Content (sendTransform this params))"
    and "existingS3MessageKey params = None"
    and "uuid e (minted w) \<noteq> []"
    and "s3_putObject e (Some b) (uuid e (minted w)) (so_s3Content (sendTransform this params)) = Inl err"
  shows "fst (sendMessage e this params False w) = Promise (Inl err)
       \<and> calls (snd (sendMessage e this params False w)) =
           calls w @
             [SqsSendMessage
                (params
                   \<lparr>MessageAttributes :=
                      Some (addS3MessageKeyAttribute (''('' @ b @ '')'' @ uuid e (minted w))
                              (MessageAttributes params)),
                    MessageBody := (if truthy (so_messageBody (sendTransform this params))
                                    then so_messageBody (sendTransform this params)
                                    else Some (uuid e (minted w)))\<rparr>),
              S3PutObject (Some b) (uuid e (minted w)) (so_s3Content (sendTransform this params))]"
  using assms(6) sendMessage_offload [OF assms(1-5)]
  by (simp add: Let_def)

theorem sendMessage_sends_before_upload_witness:
  "s3_putObject upload_refused_env (Some ''test-bucket'') ''1234-5678'' (Some ''small message body'')
     = Inl (ServiceError ''AccessDenied'')
   \<and> sendMessage upload_refused_env (client_with_threshold 49) small_message False test_world =
        (Promise (Inl (ServiceError ''AccessDenied'')),
         \<lparr> calls =
             [SqsSendMessage
                \<lparr> QueueUrl = ''test-queue'', MessageBody = Some ''1234-5678'',
                  MessageAttributes =
                    Some [(''MessageAttribute'',
                           \<lparr> DataType = Some ''String'', StringValue = Some ''attr value'',
                             BinaryValue = None \<rparr>),
                          (''S3MessageBodyKey'',
                           \<lparr> DataType = Some ''String'', StringValue = Some ''(test-bucket)1234-5678'',
                             BinaryValue = None \<rparr>)] \<rparr>,
              S3PutObject (Some ''test-bucket'') ''1234-5678'' (Some ''small message body'')],
           callbacks = [], minted = 1 \<rparr>)
   \<and> sendMessage_async upload_refused_env
        \<lparr> as_bucketName = Some ''test-bucket'', as_alwaysUseS3 = False, as_messageSizeThreshold = 49 \<rparr>
        small_message test_world =
        (Inl (ServiceError ''AccessDenied''),
         \<lparr> calls = [S3PutObject (Some ''test-bucket'') ''1234-5678'' (Some ''small message body'')],
           callbacks = [], minted = 1 \<rparr>)"
proof -
  have 1: "bucketName (client_with_threshold 49) = Some ''test-bucket''" by code_simp
  have 2: "''test-bucket'' \<noteq> []" by simp
  have t: "sendTransform (client_with_threshold 49) small_message
             = \<lparr> so_s3Content = Some ''small message body'', so_messageBody = None \<rparr>"
    by code_simp
  have 3: "truthy (so_s3Content (sendTransform (client_with_threshold 49) small_message))"
    by code_simp
  have 4: "existingS3MessageKey small_message = None" by code_simp
  have u: "uuid upload_refused_env (minted test_world) = ''1234-5678''" by code_simp
  have 5: "uuid upload_refused_env (minted test_world) \<noteq> []" by (simp add: u)
  have 6: "s3_putObject upload_refused_env (Some ''test-bucket'')
             (uuid upload_refused_env (minted test_world))
             (so_s3Content (sendTransform (client_with_threshold 49) small_message))
           = Inl (ServiceError ''AccessDenied'')"
    by code_simp
  have p: "s3_putObject upload_refused_env (Some ''test-bucket'') ''1234-5678'' (Some ''small message body'')
     = Inl (ServiceError ''AccessDenied'')"
    by code_simp
  have m: "minted (snd (sendMessage upload_refused_env (client_with_threshold 49) small_message False test_world)) = 1"
    and c: "callbacks (snd (sendMessage upload_refused_env (client_with_threshold 49) small_message False test_world)) = []"
    by code_simp+
  have s: "sendMessage_async upload_refused_env
        \<lparr> as_bucketName = Some ''test-bucket'', as_alwaysUseS3 = False, as_messageSizeThreshold = 49 \<rparr>
        small_message test_world =
        (Inl (ServiceError ''AccessDenied''),
         \<lparr> calls = [S3PutObject (Some ''test-bucket'') ''1234-5678'' (Some ''small message body'')],
           callbacks = [], minted = 1 \<rparr>)"
    by code_simp
  have r: "fst (sendMessage upload_refused_env (client_with_threshold 49) small_message False test_world)
          = Promise (Inl (ServiceError ''AccessDenied''))
      \<and> calls (snd (sendMessage upload_refused_env (client_with_threshold 49) small_message False test_world))
          = calls test_world @
            [SqsSendMessage
               (small_message
                  \<lparr>MessageAttributes :=
                     Some (addS3MessageKeyAttribute ''(test-bucket)1234-5678''
                             (MessageAttributes small_message)),
                   MessageBody := Some ''1234-5678''\<rparr>),
             S3PutObject (Some ''test-bucket'') ''1234-5678'' (Some ''small message body'')]"
    using sendMessage_sends_before_upload [OF 1 2 3 4 5 6]
    by (simp add: t u truthy_def)
  have v: "calls test_world @
            [SqsSendMessage
               (small_message
                  \<lparr>MessageAttributes :=
                     Some (addS3MessageKeyAttribute ''(test-bucket)1234-5678''
                             (MessageAttributes small_message)),
                   MessageBody := Some ''1234-5678''\<rparr>),
             S3PutObject (Some ''test-bucket'') ''1234-5678'' (Some ''small message body'')]
          = [SqsSendMessage
                \<lparr> QueueUrl = ''test-queue'', MessageBody = Some ''1234-5678'',
                  MessageAttributes =
                    Some [(''MessageAttribute'',
                           \<lparr> DataType = Some ''String'', StringValue = Some ''attr value'',
                             BinaryValue = None \<rparr>),
                          (''S3MessageBodyKey'',
                           \<lparr> DataType = Some ''String'', StringValue = Some ''(test-bucket)1234-5678'',
                             BinaryValue = None \<rparr>)] \<rparr>,
              S3PutObject (Some ''test-bucket'') ''1234-5678'' (Some ''small message body'')]"
    by code_simp
  show ?thesis
    using p m c s r v
    by (cases "sendMessage upload_refused_env (client_with_threshold 49) small_message False test_world")
       (auto intro: world.equality)
qed

end
